theory Spec2Isabelle
  imports Complex_Main "HOL-Library.Char_ord" "HOL-Library.List_Lexorder"
begin

section \<open>Data model\<close>

text \<open>
  The library works on JavaScript objects \<^verbatim>\<open>{x, y, z}\<close> (a vertex) and
  \<^verbatim>\<open>{v0, v1, v2}\<close> (a triangle of a soup). JavaScript numbers are modelled as
  real numbers: every comparison against a tolerance is the source's comparison, carried
  out in exact arithmetic. Rounding of IEEE doubles, NaN and the infinities are outside the
  model. Array indices are natural numbers.
\<close>

datatype vertex = Vertex (vx: real) (vy: real) (vz: real)

datatype triangle = Triangle (v0: vertex) (v1: vertex) (v2: vertex)

type_synonym soup = "triangle list"

datatype segment = Segment (p0: vertex) (p1: vertex)

datatype tagged_segment =
  TaggedSegment (tp0: vertex) (tp1: vertex) (idxA: nat) (idxB: nat)

section \<open>Math primitives (util/math.js, normals/triNormal.js)\<close>

definition dist3 :: "vertex \<Rightarrow> vertex \<Rightarrow> real" where
  "dist3 a b =
     (let dx = vx a - vx b; dy = vy a - vy b; dz = vz a - vz b
      in sqrt (dx * dx + dy * dy + dz * dz))"

definition cross :: "vertex \<Rightarrow> vertex \<Rightarrow> vertex" where
  "cross a b =
     Vertex (vy a * vz b - vz a * vy b)
            (vz a * vx b - vx a * vz b)
            (vx a * vy b - vy a * vx b)"

definition triNormal :: "triangle \<Rightarrow> vertex" where
  "triNormal tri =
     (let e1 = Vertex (vx (v1 tri) - vx (v0 tri)) (vy (v1 tri) - vy (v0 tri))
                      (vz (v1 tri) - vz (v0 tri));
          e2 = Vertex (vx (v2 tri) - vx (v0 tri)) (vy (v2 tri) - vy (v0 tri))
                      (vz (v2 tri) - vz (v0 tri));
          n = cross e1 e2;
          len = sqrt (vx n * vx n + vy n * vy n + vz n * vz n)
      in if len < 1 / 10 ^ 15 then Vertex 0 0 1
         else Vertex (vx n / len) (vy n / len) (vz n / len))"

section \<open>Triangle-triangle intersection (intersect/triTriIntersection.js)\<close>

definition findLinePoint ::
  "vertex \<Rightarrow> real \<Rightarrow> vertex \<Rightarrow> real \<Rightarrow> vertex \<Rightarrow> vertex option" where
  "findLinePoint nA dA nB dB lineDir =
     (let ax = \<bar>vx lineDir\<bar>; ay = \<bar>vy lineDir\<bar>; az = \<bar>vz lineDir\<bar>
      in if az \<ge> ax \<and> az \<ge> ay then
           (let det = vx nA * vy nB - vy nA * vx nB
            in if \<bar>det\<bar> < 1 / 10 ^ 12 then None
               else Some (Vertex ((- dA * vy nB + dB * vy nA) / det)
                                 ((vx nA * (- dB) - vx nB * (- dA)) / det)
                                 0))
         else if ay \<ge> ax then
           (let det2 = vx nA * vz nB - vz nA * vx nB
            in if \<bar>det2\<bar> < 1 / 10 ^ 12 then None
               else Some (Vertex ((- dA * vz nB + dB * vz nA) / det2)
                                 0
                                 ((vx nA * (- dB) - vx nB * (- dA)) / det2)))
         else
           (let det3 = vy nA * vz nB - vz nA * vy nB
            in if \<bar>det3\<bar> < 1 / 10 ^ 12 then None
               else Some (Vertex 0
                                 ((- dA * vz nB + dB * vz nA) / det3)
                                 ((vy nA * (- dB) - vy nB * (- dA)) / det3))))"

text \<open>
  One pass of the loop \<^verbatim>\<open>for (i = 0; i < 3; i++)\<close> of \<^verbatim>\<open>computeTriInterval\<close>:
  the parameter pushed for the edge from \<open>vi\<close> (distance \<open>di\<close>) to \<open>vj\<close> (distance
  \<open>dj\<close>), if any.
\<close>

definition edgeParam ::
  "vertex \<Rightarrow> vertex \<Rightarrow> vertex \<Rightarrow> real \<Rightarrow> vertex \<Rightarrow> real \<Rightarrow> real list" where
  "edgeParam lineDir linePoint vi di vj dj =
     (if (di > 0 \<and> dj < 0) \<or> (di < 0 \<and> dj > 0) then
        (let t = di / (di - dj);
             pt = Vertex (vx vi + t * (vx vj - vx vi))
                         (vy vi + t * (vy vj - vy vi))
                         (vz vi + t * (vz vj - vz vi))
         in [(vx pt - vx linePoint) * vx lineDir + (vy pt - vy linePoint) * vy lineDir
               + (vz pt - vz linePoint) * vz lineDir])
      else if \<bar>di\<bar> < 1 / 10 ^ 10 then
        [(vx vi - vx linePoint) * vx lineDir + (vy vi - vy linePoint) * vy lineDir
           + (vz vi - vz linePoint) * vz lineDir]
      else [])"

definition computeTriInterval ::
  "triangle \<Rightarrow> vertex \<Rightarrow> vertex \<Rightarrow> real \<Rightarrow> real \<Rightarrow> real \<Rightarrow> (real \<times> real) option" where
  "computeTriInterval tri lineDir linePoint d0 d1 d2 =
     (let params = edgeParam lineDir linePoint (v0 tri) d0 (v1 tri) d1
                 @ edgeParam lineDir linePoint (v1 tri) d1 (v2 tri) d2
                 @ edgeParam lineDir linePoint (v2 tri) d2 (v0 tri) d0
      in if length params < 2 then None
         else (let sorted = sort params in Some (hd sorted, last sorted)))"

text \<open>Signed distance \<open>n \<cdot> p + d\<close> of a point to a plane, as the source writes it inline.\<close>

definition planeDist :: "vertex \<Rightarrow> real \<Rightarrow> vertex \<Rightarrow> real" where
  "planeDist n d p = vx n * vx p + vy n * vy p + vz n * vz p + d"

definition planeConst :: "vertex \<Rightarrow> vertex \<Rightarrow> real" where
  "planeConst n p = - (vx n * vx p + vy n * vy p + vz n * vz p)"

definition triTriIntersection :: "triangle \<Rightarrow> triangle \<Rightarrow> segment option" where
  "triTriIntersection triA triB =
     (let nB = triNormal triB;
          dB = planeConst nB (v0 triB);
          dA0 = planeDist nB dB (v0 triA);
          dA1 = planeDist nB dB (v1 triA);
          dA2 = planeDist nB dB (v2 triA)
      in if dA0 > 0 \<and> dA1 > 0 \<and> dA2 > 0 then None
         else if dA0 < 0 \<and> dA1 < 0 \<and> dA2 < 0 then None
         else
           let nA = triNormal triA;
               dA = planeConst nA (v0 triA);
               dB0 = planeDist nA dA (v0 triB);
               dB1 = planeDist nA dA (v1 triB);
               dB2 = planeDist nA dA (v2 triB)
           in if dB0 > 0 \<and> dB1 > 0 \<and> dB2 > 0 then None
              else if dB0 < 0 \<and> dB1 < 0 \<and> dB2 < 0 then None
              else
                let dotN = vx nA * vx nB + vy nA * vy nB + vz nA * vz nB
                in if \<bar>dotN\<bar> > 0.9999 then None
                   else
                     let lineDir0 = cross nA nB;
                         lineDirLen = sqrt (vx lineDir0 * vx lineDir0
                                          + vy lineDir0 * vy lineDir0
                                          + vz lineDir0 * vz lineDir0)
                     in if lineDirLen < 1 / 10 ^ 12 then None
                        else
                          let lineDir = Vertex (vx lineDir0 / lineDirLen)
                                               (vy lineDir0 / lineDirLen)
                                               (vz lineDir0 / lineDirLen)
                          in case findLinePoint nA dA nB dB lineDir of
                               None \<Rightarrow> None
                             | Some linePoint \<Rightarrow>
                           (case computeTriInterval triA lineDir linePoint dA0 dA1 dA2 of
                               None \<Rightarrow> None
                             | Some intervalA \<Rightarrow>
                           (case computeTriInterval triB lineDir linePoint dB0 dB1 dB2 of
                               None \<Rightarrow> None
                             | Some intervalB \<Rightarrow>
                                 let overlapMin = max (fst intervalA) (fst intervalB);
                                     overlapMax = min (snd intervalA) (snd intervalB)
                                 in if overlapMin \<ge> overlapMax - 1 / 10 ^ 10 then None
                                    else
                                      let q0 = Vertex (vx linePoint + vx lineDir * overlapMin)
                                                      (vy linePoint + vy lineDir * overlapMin)
                                                      (vz linePoint + vz lineDir * overlapMin);
                                          q1 = Vertex (vx linePoint + vx lineDir * overlapMax)
                                                      (vy linePoint + vy lineDir * overlapMax)
                                                      (vz linePoint + vz lineDir * overlapMax);
                                          dx = vx q0 - vx q1;
                                          dy = vy q0 - vy q1;
                                          dz = vz q0 - vz q1
                                      in if sqrt (dx * dx + dy * dy + dz * dz) < 1 / 10 ^ 8
                                         then None
                                         else Some (Segment q0 q1))))"




section \<open>Spatial grid (intersect/spatialGrid.js)\<close>

datatype bbox =
  BBox (minX: real) (minY: real) (minZ: real) (maxX: real) (maxY: real) (maxZ: real)

definition triBBox :: "triangle \<Rightarrow> bbox" where
  "triBBox tri =
     BBox (min (vx (v0 tri)) (min (vx (v1 tri)) (vx (v2 tri))))
          (min (vy (v0 tri)) (min (vy (v1 tri)) (vy (v2 tri))))
          (min (vz (v0 tri)) (min (vz (v1 tri)) (vz (v2 tri))))
          (max (vx (v0 tri)) (max (vx (v1 tri)) (vx (v2 tri))))
          (max (vy (v0 tri)) (max (vy (v1 tri)) (vy (v2 tri))))
          (max (vz (v0 tri)) (max (vz (v1 tri)) (vz (v2 tri))))"

definition bboxOverlap :: "bbox \<Rightarrow> bbox \<Rightarrow> bool" where
  "bboxOverlap a b \<longleftrightarrow>
     minX a \<le> maxX b \<and> maxX a \<ge> minX b \<and>
     minY a \<le> maxY b \<and> maxY a \<ge> minY b \<and>
     minZ a \<le> maxZ b \<and> maxZ a \<ge> minZ b"

text \<open>
  A grid is a JavaScript object whose keys are the strings \<^verbatim>\<open>gx + "," + gy\<close> and whose
  values are arrays of triangle indices. The string is an injective rendering of the pair
  of integers, so the model keys the map by the pair itself.
\<close>

type_synonym grid = "int \<times> int \<Rightarrow> nat list option"

text \<open>The cells visited by the two nested loops over \<open>gx\<close> and \<open>gy\<close>, in loop order.\<close>

definition gridCells :: "bbox \<Rightarrow> real \<Rightarrow> (int \<times> int) list" where
  "gridCells bb cellSize =
     (let x0 = \<lfloor>minX bb / cellSize\<rfloor>; y0 = \<lfloor>minY bb / cellSize\<rfloor>;
          x1 = \<lfloor>maxX bb / cellSize\<rfloor>; y1 = \<lfloor>maxY bb / cellSize\<rfloor>
      in concat (map (\<lambda>gx. map (\<lambda>gy. (gx, gy)) [y0..y1]) [x0..x1]))"

definition gridPush :: "grid \<Rightarrow> int \<times> int \<Rightarrow> nat \<Rightarrow> grid" where
  "gridPush g key i = g(key \<mapsto> (case g key of None \<Rightarrow> [] | Some cell \<Rightarrow> cell) @ [i])"

definition buildSpatialGrid :: "soup \<Rightarrow> real \<Rightarrow> grid" where
  "buildSpatialGrid tris cellSize =
     fold (\<lambda>i g. fold (\<lambda>key g'. gridPush g' key i) (gridCells (triBBox (tris ! i)) cellSize) g)
          [0..<length tris] Map.empty"

text \<open>
  The inner loop of \<^verbatim>\<open>queryGrid\<close>: the object \<^verbatim>\<open>seen\<close> holds exactly the indices
  already pushed to \<^verbatim>\<open>result\<close>.
\<close>

definition pushUnseen :: "nat list \<Rightarrow> nat list \<Rightarrow> nat list" where
  "pushUnseen cell result = fold (\<lambda>idx r. if idx \<in> set r then r else r @ [idx]) cell result"

text \<open>
  \<^verbatim>\<open>queryGrid\<close> reads only \<^verbatim>\<open>minX, minY, maxX, maxY\<close> of its box; callers that pass
  a box without Z fields are modelled with Z fields 0.
\<close>

definition queryGrid :: "grid \<Rightarrow> bbox \<Rightarrow> real \<Rightarrow> nat list" where
  "queryGrid g bb cellSize =
     fold (\<lambda>key r. case g key of None \<Rightarrow> r | Some cell \<Rightarrow> pushUnseen cell r)
          (gridCells bb cellSize) []"

definition estimateAvgEdge :: "soup \<Rightarrow> real" where
  "estimateAvgEdge tris =
     (if length tris = 0 then 1
      else
        let count = min (length tris) 100;
            total = sum_list (map (\<lambda>t. dist3 (v0 t) (v1 t) + dist3 (v1 t) (v2 t)
                                         + dist3 (v2 t) (v0 t)) (take count tris))
        in total / (real count * 3))"

text \<open>
  Modelled from the spec: \<^verbatim>\<open>queryGridOnAxes\<close> is imported by the classifier from
  intersect/spatialGrid.js, but the file in the repository snapshot does not define it.
  The specification describes it as the point query: the indices of the single cell that
  contains \<open>(a, b)\<close>.
\<close>

definition queryGridOnAxes :: "grid \<Rightarrow> real \<Rightarrow> real \<Rightarrow> real \<Rightarrow> nat list" where
  "queryGridOnAxes g a b cellSize =
     (case g (\<lfloor>a / cellSize\<rfloor>, \<lfloor>b / cellSize\<rfloor>) of None \<Rightarrow> [] | Some cell \<Rightarrow> cell)"


section \<open>Pair intersector (intersect/intersectMeshPair.js)\<close>

definition pairSegments :: "triangle \<Rightarrow> nat \<Rightarrow> soup \<Rightarrow> nat \<Rightarrow> tagged_segment list" where
  "pairSegments triA i trisB j =
     (case triTriIntersection triA (trisB ! j) of
        None \<Rightarrow> []
      | Some seg \<Rightarrow> [TaggedSegment (p0 seg) (p1 seg) i j])"

definition intersectMeshPairTagged :: "soup \<Rightarrow> soup \<Rightarrow> tagged_segment list" where
  "intersectMeshPairTagged trisA trisB =
     (let avgEdge = estimateAvgEdge trisB;
          cellSize = max (avgEdge * 2) 0.1;
          gridB = buildSpatialGrid trisB cellSize
      in concat (map (\<lambda>i. let triA = trisA ! i;
                               bbA = triBBox triA;
                               candidates = queryGrid gridB bbA cellSize
                           in concat (map (pairSegments triA i trisB) candidates))
                     [0..<length trisA]))"

section \<open>Vertex keys\<close>

text \<open>
  \<^verbatim>\<open>x.toFixed(6)\<close>: the sign, then the integer \<open>n\<close> nearest to \<open>|x| \<cdot> 10\<^sup>6\<close> (the larger
  one on a tie) written with six decimals. (For \<open>|x| \<ge> 10\<^sup>2\<^sup>1\<close> JavaScript switches to
  exponent notation; such coordinates are outside the model.)
\<close>

definition digitChar :: "nat \<Rightarrow> char" where
  "digitChar d = ''0123456789'' ! d"

fun showNat :: "nat \<Rightarrow> string" where
  "showNat n = (if n < 10 then [digitChar n] else showNat (n div 10) @ [digitChar (n mod 10)])"

declare showNat.simps [simp del]

definition toFixed6 :: "real \<Rightarrow> string" where
  "toFixed6 x =
     (let n = nat \<lfloor>\<bar>x\<bar> * 10 ^ 6 + 1 / 2\<rfloor>
      in (if x < 0 then ''-'' else []) @ showNat (n div 10 ^ 6) @ ''.''
           @ map (\<lambda>k. digitChar ((n div 10 ^ k) mod 10)) [5, 4, 3, 2, 1, 0])"

definition vk :: "vertex \<Rightarrow> string" where
  "vk v = toFixed6 (vx v) @ '','' @ toFixed6 (vy v) @ '','' @ toFixed6 (vz v)"

definition edgeKey :: "string \<Rightarrow> string \<Rightarrow> string" where
  "edgeKey ka kb = (if ka < kb then ka @ ''|'' @ kb else kb @ ''|'' @ ka)"

text \<open>
  A JavaScript object used as a dictionary of arrays, with its keys in insertion order
  (the order in which \<^verbatim>\<open>for (k in obj)\<close> visits non-numeric keys):
  \<^verbatim>\<open>if (!obj[k]) obj[k] = []; obj[k].push(v)\<close>.
\<close>

fun keyPush :: "'k \<Rightarrow> 'v \<Rightarrow> ('k \<times> 'v list) list \<Rightarrow> ('k \<times> 'v list) list" where
  "keyPush k v [] = [(k, [v])]"
| "keyPush k v ((k', vs) # rest) =
     (if k = k' then (k', vs @ [v]) # rest else (k', vs) # keyPush k v rest)"




section \<open>Multi-axis point classifier (boolean/classifyTriangles.js)\<close>

text \<open>
  The module boolean/classifyTriangles.js is present in three revisions. The file of that
  name holds two of them. The later one classifies a point by rays along three axes
  (\<^verbatim>\<open>classifyPointMultiAxis\<close>) and takes one grid per projection plane. The earlier one
  classifies by a single ray along \<open>+Z\<close> (\<^verbatim>\<open>classifyPointByRayCast\<close>) and takes one XY
  grid and its cell size; its functions have the parameter lists
  \<open>(\<dots>, otherGrid, otherCellSize)\<close> with which \<^verbatim>\<open>boolean\<close> calls them. A third revision,
  with the same parameter lists, adds rays along \<open>+X\<close> and \<open>+Y\<close> over all triangles to the
  \<open>+Z\<close> ray. This section models the point classifier of the three-grid revision; the
  region and sub-triangle classifiers below are those of the \<open>+Z\<close> revision of the file,
  the ones whose parameter lists \<^verbatim>\<open>boolean\<close> uses.
\<close>

text \<open>
  A JavaScript exception is a value of type \<open>js_error\<close>; a function that can throw returns
  \<open>js_error + 'a\<close>. The only exception that the modelled code can raise is the
  \<^verbatim>\<open>TypeError\<close> of reading a property of \<^verbatim>\<open>undefined\<close>.
\<close>

datatype js_error = TypeError

text \<open>A loop over a list whose body can throw: the first exception ends the loop.\<close>

fun foldE :: "('a \<Rightarrow> 's \<Rightarrow> 'e + 's) \<Rightarrow> 'a list \<Rightarrow> 's \<Rightarrow> 'e + 's" where
  "foldE f [] s = Inr s"
| "foldE f (x # xs) s = (case f x s of Inl e \<Rightarrow> Inl e | Inr s' \<Rightarrow> foldE f xs s')"

datatype axis = AxisZ | AxisX | AxisY

definition JITTERS :: "axis \<Rightarrow> (real \<times> real) list" where
  "JITTERS a =
     (case a of
        AxisZ \<Rightarrow> [(0.0000537, 0.0000241), (- 0.0000319, 0.0000673), (0.0000157, - 0.0000489)]
      | AxisX \<Rightarrow> [(0.0000443, - 0.0000317), (- 0.0000261, 0.0000559), (0.0000189, 0.0000371)]
      | AxisY \<Rightarrow> [(- 0.0000397, 0.0000283), (0.0000521, - 0.0000447), (- 0.0000173, 0.0000613)])"

text \<open>The two projection coordinates and the ray coordinate of a vertex, per axis.\<close>

definition axisCoords :: "axis \<Rightarrow> vertex \<Rightarrow> real \<times> real \<times> real" where
  "axisCoords a v =
     (case a of
        AxisZ \<Rightarrow> (vx v, vy v, vz v)
      | AxisX \<Rightarrow> (vy v, vz v, vx v)
      | AxisY \<Rightarrow> (vx v, vz v, vy v))"

text \<open>The body of the loop of \<^verbatim>\<open>castRayOnAxis\<close>: does the candidate count as a hit.\<close>

definition rayHit :: "real \<Rightarrow> real \<Rightarrow> real \<Rightarrow> triangle \<Rightarrow> axis \<Rightarrow> bool" where
  "rayHit pa pb pr tri a =
     (case (axisCoords a (v0 tri), axisCoords a (v1 tri), axisCoords a (v2 tri)) of
        ((a0, b0, r0), (a1, b1, r1), (a2, b2, r2)) \<Rightarrow>
          let d = (b1 - b2) * (a0 - a2) + (a2 - a1) * (b0 - b2)
          in if \<bar>d\<bar> < 1 / 10 ^ 12 then False
             else
               let u = ((b1 - b2) * (pa - a2) + (a2 - a1) * (pb - b2)) / d;
                   v = ((b2 - b0) * (pa - a2) + (a0 - a2) * (pb - b2)) / d;
                   w = 1 - u - v
               in if u < - (1 / 10 ^ 10) \<or> v < - (1 / 10 ^ 10) \<or> w < - (1 / 10 ^ 10) then False
                  else u * r0 + v * r1 + w * r2 > pr)"

text \<open>
  \<^verbatim>\<open>otherTris[candidates[c]]\<close> is \<^verbatim>\<open>undefined\<close> for an index outside the array, and
  reading \<^verbatim>\<open>tri.v0\<close> then throws.
\<close>

definition castRayOnAxis ::
  "real \<Rightarrow> real \<Rightarrow> real \<Rightarrow> nat list \<Rightarrow> soup \<Rightarrow> axis \<Rightarrow> js_error + nat" where
  "castRayOnAxis pa pb pr candidates otherTris a =
     foldE (\<lambda>c countPos.
              if c < length otherTris
              then Inr (if rayHit pa pb pr (otherTris ! c) a then countPos + 1 else countPos)
              else Inl TypeError)
           candidates 0"

definition axisCandidates :: "grid \<Rightarrow> real \<Rightarrow> axis \<Rightarrow> real \<Rightarrow> real \<Rightarrow> nat list" where
  "axisCandidates g cellSize a pa pb =
     (case a of
        AxisZ \<Rightarrow> queryGrid g (BBox pa pb 0 pa pb 0) cellSize
      | _ \<Rightarrow> queryGridOnAxes g pa pb cellSize)"

text \<open>The loop over the three jitters, with its counters \<open>insideVotes\<close> and \<open>hadHits\<close>.\<close>

definition jitterRay ::
  "real \<Rightarrow> real \<Rightarrow> real \<Rightarrow> soup \<Rightarrow> grid \<Rightarrow> real \<Rightarrow> axis \<Rightarrow> real \<times> real
     \<Rightarrow> js_error + nat" where
  "jitterRay basePa basePb pr otherTris g cellSize a j =
     (let pa = basePa + fst j; pb = basePb + snd j;
          candidates = axisCandidates g cellSize a pa pb
      in castRayOnAxis pa pb pr candidates otherTris a)"

definition jitterLoop ::
  "real \<Rightarrow> real \<Rightarrow> real \<Rightarrow> soup \<Rightarrow> grid \<Rightarrow> real \<Rightarrow> axis \<Rightarrow> js_error + nat \<times> nat" where
  "jitterLoop basePa basePb pr otherTris g cellSize a =
     foldE (\<lambda>j (insideVotes, hadHits).
              case jitterRay basePa basePb pr otherTris g cellSize a j of
                Inl e \<Rightarrow> Inl e
              | Inr count \<Rightarrow>
                  Inr (if count mod 2 = 1 then insideVotes + 1 else insideVotes,
                       if count > 0 then hadHits + 1 else hadHits))
           (JITTERS a) (0, 0)"

definition classifyPointOnAxis ::
  "vertex \<Rightarrow> soup \<Rightarrow> grid \<Rightarrow> real \<Rightarrow> axis \<Rightarrow> js_error + nat" where
  "classifyPointOnAxis point otherTris g cellSize a =
     (case axisCoords a point of
        (basePa, basePb, pr) \<Rightarrow>
          (case jitterLoop basePa basePb pr otherTris g cellSize a of
             Inl e \<Rightarrow> Inl e
           | Inr (insideVotes, hadHits) \<Rightarrow>
               if hadHits = 0 then Inr 0
               else Inr (if insideVotes \<ge> 2 then 1 else 2)))"

text \<open>
  The argument \<^verbatim>\<open>grids\<close> of the classifier is documented as the object
  \<^verbatim>\<open>{ xy: {grid, cellSize}, yz: {grid, cellSize}, xz: {grid, cellSize} }\<close>. JavaScript
  does not check it: on a value of another shape, such as a plain cell dictionary,
  \<^verbatim>\<open>grids.xy\<close> is \<^verbatim>\<open>undefined\<close> and \<^verbatim>\<open>grids.xy.grid\<close> throws a TypeError. The two
  shapes of the argument are the two constructors of \<open>js_grids\<close>.
\<close>

datatype grid_entry = GridEntry (entryGrid: grid) (entryCellSize: real)

datatype js_grids =
  GridsObject (xy: grid_entry) (yz: grid_entry) (xz: grid_entry)
| PlainGrid grid

definition combineVotes :: "nat \<Rightarrow> nat \<Rightarrow> nat \<Rightarrow> int" where
  "combineVotes zCount xCount yCount =
     (let insideVotes = (if zCount = 1 then 1 else 0) + (if xCount = 1 then 1 else 0)
                      + (if yCount = 1 then (1::nat) else 0);
          outsideVotes = (if zCount = 1 then 0 else if zCount = 2 then 1 else 0)
                       + (if xCount = 1 then 0 else if xCount = 2 then 1 else 0)
                       + (if yCount = 1 then 0 else if yCount = 2 then (1::nat) else 0)
      in if insideVotes \<ge> 2 then 1
         else if outsideVotes \<ge> 1 then - 1
         else if insideVotes = 1 then 1
         else - 1)"

definition classifyPointMultiAxis :: "vertex \<Rightarrow> soup \<Rightarrow> js_grids \<Rightarrow> js_error + int" where
  "classifyPointMultiAxis point otherTris grids =
     (case grids of
        PlainGrid g \<Rightarrow> Inl TypeError
      | GridsObject exy eyz exz \<Rightarrow>
         (case classifyPointOnAxis point otherTris (entryGrid exy) (entryCellSize exy) AxisZ of
            Inl e \<Rightarrow> Inl e
          | Inr zCount \<Rightarrow>
           (case classifyPointOnAxis point otherTris (entryGrid eyz) (entryCellSize eyz) AxisX of
              Inl e \<Rightarrow> Inl e
            | Inr xCount \<Rightarrow>
             (case classifyPointOnAxis point otherTris (entryGrid exz) (entryCellSize exz) AxisY of
                Inl e \<Rightarrow> Inl e
              | Inr yCount \<Rightarrow> Inr (combineVotes zCount xCount yCount)))))"


section \<open>Z-ray point classifier and region classifier (boolean/classifyTriangles.js)\<close>







definition nbrPush :: "'a list list \<Rightarrow> nat \<Rightarrow> 'a \<Rightarrow> 'a list list" where
  "nbrPush ns i x = ns[i := ns ! i @ [x]]"



definition unvisited :: "bool list \<Rightarrow> nat" where
  "unvisited visited = length (filter Not visited)"

lemma unvisited_mark:
  "nb < length visited \<Longrightarrow> \<not> visited ! nb \<Longrightarrow>
   Suc (unvisited (visited[nb := True])) = unvisited visited"
proof (induction visited arbitrary: nb)
  case Nil
  then show ?case by simp
next
  case (Cons b bs)
  then show ?case by (cases nb) (auto simp: unvisited_def)
qed







section \<open>Splitter (boolean/splitTriangles.js)\<close>

text \<open>
  The splitter calls two npm packages, \<^verbatim>\<open>delaunator\<close> and
  \<^verbatim>\<open>@kninnug/constrainautor\<close>, which are not part of the repository. They are
  parameters of the model. \<open>delaunator coords\<close> is \<open>None\<close> when the constructor throws,
  and otherwise the triangles it produces, as index triples (the library returns a flat
  array in which each group of three indices of input points is one triangle).
  \<open>constrainautor coords tris attempts\<close> is what \<^verbatim>\<open>del.triangles\<close> holds after the
  constraining phase, which flips edges in place and may throw at the constructor or at any
  single \<^verbatim>\<open>constrainOne\<close>; every throw is caught by the source. The indices that the
  libraries return are positions of the points they were given; the model reads
  \<^verbatim>\<open>pts[a]\<close> and \<^verbatim>\<open>coords[a * 2]\<close> under that contract.
\<close>

datatype cdt =
  CDT (delaunator: "(real \<times> real) list \<Rightarrow> (nat \<times> nat \<times> nat) list option")
      (constrainautor: "(real \<times> real) list \<Rightarrow> (nat \<times> nat \<times> nat) list
                          \<Rightarrow> (nat \<times> nat) list \<Rightarrow> (nat \<times> nat \<times> nat) list")

definition toLocal :: "vertex \<Rightarrow> vertex \<Rightarrow> vertex \<Rightarrow> vertex \<Rightarrow> real \<times> real" where
  "toLocal lo lu lv p =
     (let dx = vx p - vx lo; dy = vy p - vy lo; dz = vz p - vz lo
      in (dx * vx lu + dy * vy lu + dz * vz lu, dx * vx lv + dy * vy lv + dz * vz lv))"

definition baryCoords ::
  "real \<times> real \<Rightarrow> real \<times> real \<Rightarrow> real \<times> real \<Rightarrow> real \<Rightarrow> real \<Rightarrow> real
     \<Rightarrow> real \<times> real \<times> real" where
  "baryCoords l0 l1 l2 baryD pu pv =
     (let u = ((snd l1 - snd l2) * (pu - fst l2) + (fst l2 - fst l1) * (pv - snd l2)) / baryD;
          v = ((snd l2 - snd l0) * (pu - fst l2) + (fst l0 - fst l2) * (pv - snd l2)) / baryD
      in (u, v, 1 - u - v))"

text \<open>
  Step 2 of the source: one segment endpoint \<open>p\<close> against the keys already \<open>seen\<close> and
  the list \<open>validSteiner\<close> (each entry with its key).
\<close>

definition steinerStep ::
  "(vertex \<Rightarrow> real \<times> real \<times> real) \<Rightarrow> vertex \<Rightarrow> string list \<times> (vertex \<times> string) list
     \<Rightarrow> string list \<times> (vertex \<times> string) list" where
  "steinerStep bary p st =
     (case st of
        (seen, validSteiner) \<Rightarrow>
          let key = vk p
          in if key \<in> set seen then (seen, validSteiner)
             else
               case bary p of
                 (b0, b1, b2) \<Rightarrow>
                   if b0 < - (1 / 10 ^ 4) \<or> b1 < - (1 / 10 ^ 4) \<or> b2 < - (1 / 10 ^ 4)
                   then (key # seen, validSteiner)
                   else (key # seen, validSteiner @ [(p, key)]))"

definition segmentEndpoints :: "tagged_segment list \<Rightarrow> vertex list" where
  "segmentEndpoints segments = concat (map (\<lambda>seg. [tp0 seg, tp1 seg]) segments)"

definition constraintAttempts ::
  "(string \<Rightarrow> nat option) \<Rightarrow> tagged_segment list \<Rightarrow> (nat \<times> nat) list" where
  "constraintAttempts keyToIndex segments =
     concat (map (\<lambda>seg. case (keyToIndex (vk (tp0 seg)), keyToIndex (vk (tp1 seg))) of
                           (Some idx0, Some idx1) \<Rightarrow> if idx0 \<noteq> idx1 then [(idx0, idx1)] else []
                         | _ \<Rightarrow> [])
                 segments)"

text \<open>Step 4 of the source: the centroid and area filter on one Delaunay triangle.\<close>

definition keepSubTriangle ::
  "(real \<Rightarrow> real \<Rightarrow> real \<times> real \<times> real) \<Rightarrow> real \<Rightarrow> (real \<times> real) list
     \<Rightarrow> nat \<times> nat \<times> nat \<Rightarrow> bool" where
  "keepSubTriangle bary triArea2D coords t =
     (case t of
        (a, b, c) \<Rightarrow>
          let cx = (fst (coords ! a) + fst (coords ! b) + fst (coords ! c)) / 3;
              cy = (snd (coords ! a) + snd (coords ! b) + snd (coords ! c)) / 3
          in case bary cx cy of
               (c0, c1, c2) \<Rightarrow>
                 if c0 < - (1 / 10 ^ 6) \<or> c1 < - (1 / 10 ^ 6) \<or> c2 < - (1 / 10 ^ 6) then False
                 else
                   let au = fst (coords ! a); av = snd (coords ! a);
                       bu = fst (coords ! b); bv = snd (coords ! b);
                       cu = fst (coords ! c); cv = snd (coords ! c);
                       subArea = \<bar>(bu - au) * (cv - av) - (cu - au) * (bv - av)\<bar> * 0.5
                   in \<not> subArea < triArea2D * (1 / 10 ^ 8))"

text \<open>
  The local variables of \<^verbatim>\<open>retriangulateWithSteinerPoints\<close> are functions of its
  arguments; they carry the prefix \<open>rt\<close>. Step 1: the local 2D frame on the triangle plane.
\<close>

definition rtE1 :: "triangle \<Rightarrow> vertex" where
  "rtE1 tri = Vertex (vx (v1 tri) - vx (v0 tri)) (vy (v1 tri) - vy (v0 tri))
                     (vz (v1 tri) - vz (v0 tri))"

definition rtE2 :: "triangle \<Rightarrow> vertex" where
  "rtE2 tri = Vertex (vx (v2 tri) - vx (v0 tri)) (vy (v2 tri) - vy (v0 tri))
                     (vz (v2 tri) - vz (v0 tri))"

definition rtE1Len :: "triangle \<Rightarrow> real" where
  "rtE1Len tri = sqrt (vx (rtE1 tri) * vx (rtE1 tri) + vy (rtE1 tri) * vy (rtE1 tri)
                     + vz (rtE1 tri) * vz (rtE1 tri))"

definition rtLu :: "triangle \<Rightarrow> vertex" where
  "rtLu tri = Vertex (vx (rtE1 tri) / rtE1Len tri) (vy (rtE1 tri) / rtE1Len tri)
                     (vz (rtE1 tri) / rtE1Len tri)"

definition rtLn :: "triangle \<Rightarrow> vertex" where
  "rtLn tri = cross (rtE1 tri) (rtE2 tri)"

definition rtLnLen :: "triangle \<Rightarrow> real" where
  "rtLnLen tri = sqrt (vx (rtLn tri) * vx (rtLn tri) + vy (rtLn tri) * vy (rtLn tri)
                     + vz (rtLn tri) * vz (rtLn tri))"

definition rtLv0 :: "triangle \<Rightarrow> vertex" where
  "rtLv0 tri = cross (rtLn tri) (rtLu tri)"

definition rtLvLen :: "triangle \<Rightarrow> real" where
  "rtLvLen tri = sqrt (vx (rtLv0 tri) * vx (rtLv0 tri) + vy (rtLv0 tri) * vy (rtLv0 tri)
                     + vz (rtLv0 tri) * vz (rtLv0 tri))"

definition rtLv :: "triangle \<Rightarrow> vertex" where
  "rtLv tri = Vertex (vx (rtLv0 tri) / rtLvLen tri) (vy (rtLv0 tri) / rtLvLen tri)
                     (vz (rtLv0 tri) / rtLvLen tri)"

definition rtToLocal :: "triangle \<Rightarrow> vertex \<Rightarrow> real \<times> real" where
  "rtToLocal tri p = toLocal (v0 tri) (rtLu tri) (rtLv tri) p"

definition rtBaryD :: "triangle \<Rightarrow> real" where
  "rtBaryD tri =
     (let l0 = rtToLocal tri (v0 tri); l1 = rtToLocal tri (v1 tri); l2 = rtToLocal tri (v2 tri)
      in (snd l1 - snd l2) * (fst l0 - fst l2) + (fst l2 - fst l1) * (snd l0 - snd l2))"

definition rtBary :: "triangle \<Rightarrow> real \<Rightarrow> real \<Rightarrow> real \<times> real \<times> real" where
  "rtBary tri pu pv =
     baryCoords (rtToLocal tri (v0 tri)) (rtToLocal tri (v1 tri)) (rtToLocal tri (v2 tri))
                (rtBaryD tri) pu pv"

text \<open>Step 2: the segment endpoints that survive validation, each with its key.\<close>

definition rtValidSteiner :: "triangle \<Rightarrow> tagged_segment list \<Rightarrow> (vertex \<times> string) list" where
  "rtValidSteiner tri segments =
     snd (fold (steinerStep (\<lambda>p. case rtToLocal tri p of (pu, pv) \<Rightarrow> rtBary tri pu pv))
               (segmentEndpoints segments)
               ([vk (v2 tri), vk (v1 tri), vk (v0 tri)], []))"

definition rtPts :: "triangle \<Rightarrow> tagged_segment list \<Rightarrow> vertex list" where
  "rtPts tri segments = [v0 tri, v1 tri, v2 tri] @ map fst (rtValidSteiner tri segments)"

definition rtKeyToIndex :: "triangle \<Rightarrow> tagged_segment list \<Rightarrow> string \<Rightarrow> nat option" where
  "rtKeyToIndex tri segments =
     fold (\<lambda>(i, key) m. m(key \<mapsto> i))
          (zip [0..<length (rtPts tri segments)]
               ([vk (v0 tri), vk (v1 tri), vk (v2 tri)] @ map snd (rtValidSteiner tri segments)))
          Map.empty"

text \<open>Step 3: the points in local 2D, as handed to Delaunator.\<close>

definition rtCoords :: "triangle \<Rightarrow> tagged_segment list \<Rightarrow> (real \<times> real) list" where
  "rtCoords tri segments = map (rtToLocal tri) (rtPts tri segments)"

text \<open>
  Steps 3 and 4: the constraining phase on the Delaunay triangles \<open>delTris0\<close>, then the
  sub-triangles that pass the centroid and area filter, mapped back to 3D.
\<close>

definition rtResult ::
  "cdt \<Rightarrow> triangle \<Rightarrow> tagged_segment list \<Rightarrow> (nat \<times> nat \<times> nat) list \<Rightarrow> triangle list" where
  "rtResult lib tri segments delTris0 =
     (let pts = rtPts tri segments;
          coords = rtCoords tri segments;
          delTris = constrainautor lib coords delTris0
                      (constraintAttempts (rtKeyToIndex tri segments) segments)
      in map (\<lambda>(a, b, c). Triangle (pts ! a) (pts ! b) (pts ! c))
             (filter (keepSubTriangle (rtBary tri) (\<bar>rtBaryD tri\<bar> * 0.5) coords) delTris))"

definition retriangulateWithSteinerPoints ::
  "cdt \<Rightarrow> triangle \<Rightarrow> tagged_segment list \<Rightarrow> triangle list" where
  "retriangulateWithSteinerPoints lib tri segments =
     (if length segments = 0 then [tri]
      else if rtE1Len tri < 1 / 10 ^ 12 then [tri]
      else if rtLnLen tri < 1 / 10 ^ 12 then [tri]
      else if rtLvLen tri < 1 / 10 ^ 12 then [tri]
      else if \<bar>rtBaryD tri\<bar> < 1 / 10 ^ 12 then [tri]
      else if length (rtValidSteiner tri segments) = 0 then [tri]
      else
        case delaunator lib (rtCoords tri segments) of
          None \<Rightarrow> [tri]
        | Some delTris0 \<Rightarrow>
            let result = rtResult lib tri segments delTris0
            in if length result = 0 then [tri] else result)"

section \<open>Sub-triangle classifier (boolean/classifyTriangles.js)\<close>







section \<open>Seam deduplication (repair/deduplicateVertices.js)\<close>

type_synonym grid3 = "int \<times> int \<times> int \<Rightarrow> nat list option"

text \<open>The 27 cells around \<open>(gx, gy, gz)\<close>, in the order of the three nested loops.\<close>

definition cells27 :: "int \<Rightarrow> int \<Rightarrow> int \<Rightarrow> (int \<times> int \<times> int) list" where
  "cells27 gx gy gz =
     concat (map (\<lambda>dx. concat (map (\<lambda>dy. map (\<lambda>dz. (gx + dx, gy + dy, gz + dz)) [- 1, 0, 1])
                                     [- 1, 0, 1]))
                 [- 1, 0, 1])"

definition bucketsAround :: "grid3 \<Rightarrow> int \<Rightarrow> int \<Rightarrow> int \<Rightarrow> nat list" where
  "bucketsAround g gx gy gz =
     concat (map (\<lambda>key. case g key of None \<Rightarrow> [] | Some cell \<Rightarrow> cell) (cells27 gx gy gz))"

definition distSq3 :: "vertex \<Rightarrow> vertex \<Rightarrow> real" where
  "distSq3 a b =
     (let dx = vx a - vx b; dy = vy a - vy b; dz = vz a - vz b
      in dx * dx + dy * dy + dz * dz)"




section \<open>Winding propagator (boolean/booleanOp.js, normals/alignNormals.js)\<close>

definition ensureZUpNormals :: "soup \<Rightarrow> soup" where
  "ensureZUpNormals tris =
     map (\<lambda>tri. if vz (triNormal tri) < - 0.01 then Triangle (v0 tri) (v2 tri) (v1 tri)
                 else Triangle (v0 tri) (v1 tri) (v2 tri))
         tris"


datatype half_edge = HalfEdge (triIdx: nat) (heFrom: string) (heTo: string)

definition triHalfEdges :: "nat \<Rightarrow> triangle \<Rightarrow> half_edge list" where
  "triHalfEdges i tri =
     (let k0 = vk (v0 tri); k1 = vk (v1 tri); k2 = vk (v2 tri)
      in [HalfEdge i k0 k1, HalfEdge i k1 k2, HalfEdge i k2 k0])"

definition halfEdgeMap :: "soup \<Rightarrow> (string \<times> half_edge list) list" where
  "halfEdgeMap tris =
     fold (\<lambda>i m. fold (\<lambda>h m'. keyPush (edgeKey (heFrom h) (heTo h)) h m')
                       (triHalfEdges i (tris ! i)) m)
          [0..<length tris] []"

definition isManifold :: "(string \<times> half_edge list) list \<Rightarrow> bool" where
  "isManifold edgeToTris \<longleftrightarrow> list_all (\<lambda>(ek, hs). length hs = 2) edgeToTris"

text \<open>A neighbour entry \<^verbatim>\<open>{neighbor, sameDirection}\<close> is a pair.\<close>

definition windNeighbors ::
  "nat \<Rightarrow> (string \<times> half_edge list) list \<Rightarrow> (nat \<times> bool) list list" where
  "windNeighbors n edgeToTris =
     fold (\<lambda>(ek, hs) ns.
             case hs of
               [t0, t1] \<Rightarrow>
                 nbrPush (nbrPush ns (triIdx t0) (triIdx t1, heFrom t0 = heFrom t1))
                         (triIdx t1) (triIdx t0, heFrom t0 = heFrom t1)
             | _ \<Rightarrow> ns)
          edgeToTris (replicate n [])"

fun windVisit ::
  "bool \<Rightarrow> (nat \<times> bool) list \<Rightarrow> nat list \<Rightarrow> bool list \<Rightarrow> bool list
     \<Rightarrow> js_error + nat list \<times> bool list \<times> bool list" where
  "windVisit curFlipped [] queue visited flipped = Inr (queue, visited, flipped)"
| "windVisit curFlipped ((nb, sameDirection) # nbs) queue visited flipped =
     (if nb \<ge> length visited then Inl TypeError
      else if visited ! nb then windVisit curFlipped nbs queue visited flipped
      else windVisit curFlipped nbs (queue @ [nb]) (visited[nb := True])
             (flipped[nb := (if sameDirection then \<not> curFlipped else curFlipped)]))"

lemma windVisit_measure:
  "windVisit c nbs queue visited flipped = Inr (queue', visited', flipped') \<Longrightarrow>
   unvisited visited' + length queue' = unvisited visited + length queue"
proof (induction nbs arbitrary: queue visited flipped)
  case Nil
  then show ?case by simp
next
  case (Cons e nbs)
  obtain nb sd where e: "e = (nb, sd)" by (cases e)
  show ?case
  proof (cases "nb \<ge> length visited")
    case True
    with Cons.prems e show ?thesis by simp
  next
    case False
    show ?thesis
    proof (cases "visited ! nb")
      case True
      with False Cons e show ?thesis by simp
    next
      case unv: False
      from False unv Cons.prems e
      have "windVisit c nbs (queue @ [nb]) (visited[nb := True])
              (flipped[nb := (if sd then \<not> c else c)]) = Inr (queue', visited', flipped')"
        by simp
      from Cons.IH [OF this] unvisited_mark [of nb visited] False unv
      show ?thesis by simp
    qed
  qed
qed

function windBfs ::
  "(nat \<times> bool) list list \<Rightarrow> nat list \<Rightarrow> nat \<Rightarrow> bool list \<Rightarrow> bool list
     \<Rightarrow> js_error + bool list" where
  "windBfs neighbors queue head visited flipped =
     (if head < length queue then
        (if queue ! head \<ge> length neighbors \<or> queue ! head \<ge> length flipped
         then Inl TypeError
         else
           case windVisit (flipped ! (queue ! head)) (neighbors ! (queue ! head))
                  queue visited flipped of
             Inl e \<Rightarrow> Inl e
           | Inr (queue', visited', flipped') \<Rightarrow>
               windBfs neighbors queue' (head + 1) visited' flipped')
      else Inr flipped)"
  by pat_completeness auto
termination
proof (relation "measure (\<lambda>(neighbors, queue, head, visited, flipped).
                            unvisited visited + length queue - head)", goal_cases)
  case 1
  then show ?case by simp
next
  case (2 neighbors queue head visited flipped x2 queue' y visited' flipped')
  then have "windVisit (flipped ! (queue ! head)) (neighbors ! (queue ! head))
               queue visited flipped = Inr (queue', visited', flipped')"
    by simp
  from windVisit_measure [OF this] 2 show ?case by auto
qed

declare windBfs.simps [simp del]

definition applyFlips :: "soup \<Rightarrow> bool list \<Rightarrow> soup" where
  "applyFlips tris flipped =
     map (\<lambda>ri. let t = tris ! ri
                in if flipped ! ri then Triangle (v0 t) (v2 t) (v1 t)
                   else Triangle (v0 t) (v1 t) (v2 t))
         [0..<length tris]"

definition propagateNormals :: "soup \<Rightarrow> js_error + soup" where
  "propagateNormals tris =
     (if length tris = 0 then Inr tris
      else
        let edgeToTris = halfEdgeMap tris
        in if \<not> isManifold edgeToTris then Inr (ensureZUpNormals tris)
           else
             let n = length tris;
                 neighbors = windNeighbors n edgeToTris
             in case windBfs neighbors [0] 0 ((replicate n False)[0 := True])
                       (replicate n False) of
                  Inl e \<Rightarrow> Inl e
                | Inr flipped \<Rightarrow> Inr (applyFlips tris flipped))"

section \<open>Weld (repair/weldVertices.js)\<close>

datatype welded =
  Welded (weldedPoints: "vertex list") (weldedTriangles: "(vertex \<times> vertex \<times> vertex) list")

text \<open>
  The loop state of the welding pass: the point pool, the 3D hash grid of pool indices
  and the triangles emitted so far. The last component is not in the source: it records,
  for every input triangle, the three pool indices that \<^verbatim>\<open>getOrAddPoint\<close> returned.
\<close>

datatype weld_state =
  WeldState (wsPoints: "vertex list") (wsGrid: grid3)
            (wsTriangles: "(vertex \<times> vertex \<times> vertex) list")
            (wsTrace: "(nat \<times> nat \<times> nat) list")

definition weldCell :: "real \<Rightarrow> vertex \<Rightarrow> int \<times> int \<times> int" where
  "weldCell cellSize v = (\<lfloor>vx v / cellSize\<rfloor>, \<lfloor>vy v / cellSize\<rfloor>, \<lfloor>vz v / cellSize\<rfloor>)"

definition weldFind :: "real \<Rightarrow> real \<Rightarrow> vertex list \<Rightarrow> grid3 \<Rightarrow> vertex \<Rightarrow> nat option" where
  "weldFind cellSize tolSq pts g v =
     (case weldCell cellSize v of
        (gx, gy, gz) \<Rightarrow>
          List.find (\<lambda>c. distSq3 (pts ! c) v \<le> tolSq) (bucketsAround g gx gy gz))"

definition getOrAddPoint ::
  "real \<Rightarrow> real \<Rightarrow> vertex \<Rightarrow> vertex list \<times> grid3 \<Rightarrow> nat \<times> vertex list \<times> grid3" where
  "getOrAddPoint cellSize tolSq v st =
     (case st of
        (pts, g) \<Rightarrow>
          case weldFind cellSize tolSq pts g v of
            Some c \<Rightarrow> (c, pts, g)
          | None \<Rightarrow>
              (length pts, pts @ [v],
               g(weldCell cellSize v \<mapsto>
                   (case g (weldCell cellSize v) of None \<Rightarrow> [] | Some cell \<Rightarrow> cell)
                     @ [length pts])))"

definition weldStep :: "real \<Rightarrow> real \<Rightarrow> triangle \<Rightarrow> weld_state \<Rightarrow> weld_state" where
  "weldStep cellSize tolSq tri s =
     (case getOrAddPoint cellSize tolSq (v0 tri) (wsPoints s, wsGrid s) of
        (i0, st1) \<Rightarrow>
          case getOrAddPoint cellSize tolSq (v1 tri) st1 of
            (i1, st2) \<Rightarrow>
              case getOrAddPoint cellSize tolSq (v2 tri) st2 of
                (i2, pts, g) \<Rightarrow>
                  WeldState pts g
                    (if i0 = i1 \<or> i1 = i2 \<or> i0 = i2 then wsTriangles s
                     else wsTriangles s @ [(pts ! i0, pts ! i1, pts ! i2)])
                    (wsTrace s @ [(i0, i1, i2)]))"

definition weldLoop :: "soup \<Rightarrow> real \<Rightarrow> weld_state" where
  "weldLoop tris tolerance =
     fold (weldStep (max (tolerance * 2) 0.002) (tolerance * tolerance)) tris
          (WeldState [] Map.empty [] [])"

definition weldVertices :: "soup \<Rightarrow> real \<Rightarrow> welded" where
  "weldVertices tris tolerance =
     (if tolerance \<le> 0
      then Welded (concat (map (\<lambda>tri. [v0 tri, v1 tri, v2 tri]) tris))
                  (map (\<lambda>tri. (v0 tri, v1 tri, v2 tri)) tris)
      else Welded (wsPoints (weldLoop tris tolerance)) (wsTriangles (weldLoop tris tolerance)))"

section \<open>Assembler (boolean/booleanOp.js)\<close>













section \<open>Verification: the triangle intersector\<close>


definition segFinal ::
  "vertex \<Rightarrow> vertex \<Rightarrow> real \<Rightarrow> real \<Rightarrow> real \<times> real \<times> real \<Rightarrow> real \<times> real \<times> real
     \<Rightarrow> segment option" where
  "segFinal linePoint lineDir overlapMin overlapMax dAs dBs =
     (let q0 = Vertex (vx linePoint + vx lineDir * overlapMin)
                      (vy linePoint + vy lineDir * overlapMin)
                      (vz linePoint + vz lineDir * overlapMin);
          q1 = Vertex (vx linePoint + vx lineDir * overlapMax)
                      (vy linePoint + vy lineDir * overlapMax)
                      (vz linePoint + vz lineDir * overlapMax);
          dx = vx q0 - vx q1;
          dy = vy q0 - vy q1;
          dz = vz q0 - vz q1
      in if sqrt (dx * dx + dy * dy + dz * dz) < 1 / 10 ^ 8 then None
         else Some (Segment q0 q1))"










section \<open>Verification: the spatial grid\<close>

text \<open>The set of triangle indices stored in a cell of a grid.\<close>

definition cellSet :: "grid \<Rightarrow> int \<times> int \<Rightarrow> nat set" where
  "cellSet g key = (case g key of None \<Rightarrow> {} | Some cell \<Rightarrow> set cell)"

lemma cellSet_gridPush:
  "cellSet (gridPush g k i) key = (if key = k then insert i (cellSet g k) else cellSet g key)"
  by (auto simp: cellSet_def gridPush_def split: option.splits)

lemma cellSet_fold_push:
  "cellSet (fold (\<lambda>key g'. gridPush g' key i) keys g) key
     = (if key \<in> set keys then insert i (cellSet g key) else cellSet g key)"
  by (induction keys arbitrary: g) (auto simp: cellSet_gridPush)

lemma cellSet_build_fold:
  "cellSet (fold (\<lambda>i g. fold (\<lambda>key g'. gridPush g' key i) (cells i) g) js g) key
     = cellSet g key \<union> {i \<in> set js. key \<in> set (cells i)}"
  by (induction js arbitrary: g) (auto simp: cellSet_fold_push)

lemma cellSet_buildSpatialGrid:
  "cellSet (buildSpatialGrid tris cs) key
     = {i. i < length tris \<and> key \<in> set (gridCells (triBBox (tris ! i)) cs)}"
  unfolding buildSpatialGrid_def
  by (auto simp: cellSet_build_fold) (simp_all add: cellSet_def)

lemma set_pushUnseen: "set (pushUnseen cell r) = set cell \<union> set r"
  unfolding pushUnseen_def by (induction cell arbitrary: r) auto

lemma distinct_pushUnseen: "distinct r \<Longrightarrow> distinct (pushUnseen cell r)"
  unfolding pushUnseen_def by (induction cell arbitrary: r) auto

lemma set_queryGrid_fold:
  "set (fold (\<lambda>key r. case g key of None \<Rightarrow> r | Some cell \<Rightarrow> pushUnseen cell r) keys r0)
     = set r0 \<union> (\<Union>key \<in> set keys. cellSet g key)"
  by (induction keys arbitrary: r0) (auto simp: set_pushUnseen cellSet_def split: option.splits)

lemma distinct_queryGrid_fold:
  "distinct r0 \<Longrightarrow>
   distinct (fold (\<lambda>key r. case g key of None \<Rightarrow> r | Some cell \<Rightarrow> pushUnseen cell r) keys r0)"
  by (induction keys arbitrary: r0) (auto simp: distinct_pushUnseen split: option.splits)

lemma set_queryGrid: "set (queryGrid g bb cs) = (\<Union>key \<in> set (gridCells bb cs). cellSet g key)"
  unfolding queryGrid_def by (simp add: set_queryGrid_fold)

lemma distinct_queryGrid: "distinct (queryGrid g bb cs)"
  unfolding queryGrid_def by (simp add: distinct_queryGrid_fold)

lemma gridCells_iff:
  "(gx, gy) \<in> set (gridCells bb cs) \<longleftrightarrow>
     \<lfloor>minX bb / cs\<rfloor> \<le> gx \<and> gx \<le> \<lfloor>maxX bb / cs\<rfloor> \<and> \<lfloor>minY bb / cs\<rfloor> \<le> gy \<and> gy \<le> \<lfloor>maxY bb / cs\<rfloor>"
  unfolding gridCells_def Let_def by (auto simp: image_iff)

definition gridInRange :: "grid \<Rightarrow> nat \<Rightarrow> bool" where
  "gridInRange g n \<longleftrightarrow> (\<forall>key. \<forall>c \<in> cellSet g key. c < n)"


lemma foldE_castRay:
  "\<forall>c \<in> set cands. c < length ts \<Longrightarrow>
   foldE (\<lambda>c countPos. if c < length ts
                         then Inr (if rayHit pa pb pr (ts ! c) a then countPos + 1 else countPos)
                         else Inl TypeError) cands k
     = Inr (k + length (filter (\<lambda>c. rayHit pa pb pr (ts ! c) a) cands))"
  by (induction cands arbitrary: k) auto

lemma castRayOnAxis_total:
  "\<forall>c \<in> set cands. c < length ts \<Longrightarrow>
   castRayOnAxis pa pb pr cands ts a = Inr (length (filter (\<lambda>c. rayHit pa pb pr (ts ! c) a) cands))"
  unfolding castRayOnAxis_def by (simp add: foldE_castRay)

lemma set_queryGridOnAxes:
  "set (queryGridOnAxes g a b cs) = cellSet g (\<lfloor>a / cs\<rfloor>, \<lfloor>b / cs\<rfloor>)"
  by (simp add: queryGridOnAxes_def cellSet_def split: option.splits)

lemma axisCandidates_range:
  "gridInRange g n \<Longrightarrow> \<forall>c \<in> set (axisCandidates g cs a pa pb). c < n"
  unfolding gridInRange_def axisCandidates_def
  by (cases a) (auto simp: set_queryGrid set_queryGridOnAxes)


section \<open>Verification: the point classifier\<close>

text \<open>The number of hits of the ray through the jittered point.\<close>

definition rayCount ::
  "vertex \<Rightarrow> soup \<Rightarrow> grid_entry \<Rightarrow> axis \<Rightarrow> real \<times> real \<Rightarrow> nat" where
  "rayCount point otherTris e a j =
     (case axisCoords a point of
        (basePa, basePb, pr) \<Rightarrow>
          length (filter (\<lambda>c. rayHit (basePa + fst j) (basePb + snd j) pr (otherTris ! c) a)
                    (axisCandidates (entryGrid e) (entryCellSize e) a (basePa + fst j)
                       (basePb + snd j))))"

text \<open>
  The vote of one axis from the hit counts of its three rays, in the words of the
  specification: no vote (0) when no ray hit anything, inside (1) when the majority of
  the rays have an odd number of crossings, outside (2) otherwise.
\<close>

definition axisVote :: "nat list \<Rightarrow> nat" where
  "axisVote counts =
     (if \<forall>c \<in> set counts. c = 0 then 0
      else if 2 \<le> length (filter (\<lambda>c. c mod 2 = 1) counts) then 1 else 2)"

text \<open>
  The combination of the three axis votes, in the words of the claim: inside when at
  least two axes vote inside, or when exactly one axis had hits and it voted inside;
  outside in every other case.
\<close>

definition specCombine :: "nat list \<Rightarrow> int" where
  "specCombine votes =
     (let insideVotes = length (filter (\<lambda>v. v = 1) votes);
          axesWithHits = length (filter (\<lambda>v. v \<noteq> 0) votes)
      in if 2 \<le> insideVotes \<or> (axesWithHits = 1 \<and> insideVotes = 1) then 1 else - 1)"

lemma JITTERS_three: "\<exists>j0 j1 j2. JITTERS a = [j0, j1, j2]"
  by (cases a; simp only: JITTERS_def axis.case; blast)

lemma jitterRay_total:
  assumes "gridInRange (entryGrid e) (length ts)" and "axisCoords a point = (basePa, basePb, pr)"
  shows "jitterRay basePa basePb pr ts (entryGrid e) (entryCellSize e) a j
           = Inr (rayCount point ts e a j)"
  unfolding jitterRay_def Let_def rayCount_def
  using assms axisCandidates_range [OF assms(1)]
  by (simp add: castRayOnAxis_total)

lemma classifyPointOnAxis_vote:
  assumes "gridInRange (entryGrid e) (length ts)"
  shows "classifyPointOnAxis point ts (entryGrid e) (entryCellSize e) a
           = Inr (axisVote (map (rayCount point ts e a) (JITTERS a)))"
proof -
  obtain basePa basePb pr where ac: "axisCoords a point = (basePa, basePb, pr)"
    by (cases "axisCoords a point") auto
  obtain j0 j1 j2 where js: "JITTERS a = [j0, j1, j2]" using JITTERS_three by blast
  show ?thesis
    unfolding classifyPointOnAxis_def jitterLoop_def
    by (simp add: ac js jitterRay_total [OF assms ac] axisVote_def)
qed

lemma axisVote_le2: "axisVote cs \<le> 2"
  by (simp add: axisVote_def)

lemma combineVotes_spec:
  "z \<le> 2 \<Longrightarrow> x \<le> 2 \<Longrightarrow> y \<le> 2 \<Longrightarrow> combineVotes z x y = specCombine [z, x, y]"
  by (auto simp: combineVotes_def specCombine_def Let_def le_Suc_eq numeral_2_eq_2)

lemma specCombine_outside:
  "z \<le> 2 \<Longrightarrow> x \<le> 2 \<Longrightarrow> y \<le> 2 \<Longrightarrow>
   (specCombine [z, x, y] = - 1) \<longleftrightarrow>
     (1 \<le> length (filter (\<lambda>v. v = 2) [z, x, y]) \<and> length (filter (\<lambda>v. v = 1) [z, x, y]) \<le> 1)
     \<or> length (filter (\<lambda>v. v \<noteq> 0) [z, x, y]) = 0"
  by (auto simp: specCombine_def Let_def le_Suc_eq numeral_2_eq_2)


text \<open>
  Claim C4. For every point and triangle set (with grids that hold indices of the
  triangle set, so that no lookup throws), \<open>classifyPointMultiAxis\<close> returns inside (+1)
  exactly when at least two of the axes +Z, +X, +Y vote inside, or exactly one axis had any
  ray hits and that axis voted inside; in every other case it returns outside (-1), and
  these other cases are: at least one outside vote with at most one inside vote, or no axis
  with any hits.
\<close>

theorem classifyPointMultiAxis_votes:
  assumes "gridInRange (entryGrid exy) (length otherTris)"
      and "gridInRange (entryGrid eyz) (length otherTris)"
      and "gridInRange (entryGrid exz) (length otherTris)"
  shows "let votes = [axisVote (map (rayCount point otherTris exy AxisZ) (JITTERS AxisZ)),
                      axisVote (map (rayCount point otherTris eyz AxisX) (JITTERS AxisX)),
                      axisVote (map (rayCount point otherTris exz AxisY) (JITTERS AxisY))]
         in classifyPointMultiAxis point otherTris (GridsObject exy eyz exz)
              = Inr (specCombine votes)
            \<and> ((specCombine votes = - 1) \<longleftrightarrow>
                 (1 \<le> length (filter (\<lambda>v. v = 2) votes)
                    \<and> length (filter (\<lambda>v. v = 1) votes) \<le> 1)
                 \<or> length (filter (\<lambda>v. v \<noteq> 0) votes) = 0)"
  unfolding classifyPointMultiAxis_def Let_def
  using specCombine_outside [OF axisVote_le2 axisVote_le2 axisVote_le2]
  by (simp add: classifyPointOnAxis_vote assms combineVotes_spec axisVote_le2)

text \<open>
  A witness: the point \<open>(0, 0, 0)\<close> below a horizontal triangle at height 1. The +Z rays
  cross the triangle once, the +X and +Y rays see a degenerate projection and hit nothing:
  one axis had hits and voted inside.
\<close>

definition wTri :: triangle where
  "wTri = Triangle (Vertex (- 1) (- 1) 1) (Vertex 2 (- 1) 1) (Vertex (- 1) 2 1)"

definition wEntry :: grid_entry where
  "wEntry = GridEntry (\<lambda>key. Some [0]) 10"

lemma wEntry_range: "gridInRange (entryGrid wEntry) (length [wTri])"
  by (simp add: gridInRange_def cellSet_def wEntry_def)

lemma pushUnseen_single: "pushUnseen [i] [] = [i]"
  by (simp add: pushUnseen_def)

lemma w_votes:
  "axisVote (map (rayCount (Vertex 0 0 0) [wTri] wEntry AxisZ) (JITTERS AxisZ)) = 1"
  "axisVote (map (rayCount (Vertex 0 0 0) [wTri] wEntry AxisX) (JITTERS AxisX)) = 0"
  "axisVote (map (rayCount (Vertex 0 0 0) [wTri] wEntry AxisY) (JITTERS AxisY)) = 0"
  by (simp_all add: axisVote_def rayCount_def JITTERS_def axisCoords_def axisCandidates_def
        queryGrid_def gridCells_def queryGridOnAxes_def wEntry_def wTri_def rayHit_def
        pushUnseen_single Let_def)

theorem classifyPointMultiAxis_votes_witness:
  "gridInRange (entryGrid wEntry) (length [wTri]) \<and>
   classifyPointMultiAxis (Vertex 0 0 0) [wTri] (GridsObject wEntry wEntry wEntry) = Inr 1"
  using classifyPointMultiAxis_votes [OF wEntry_range wEntry_range wEntry_range,
          of "Vertex 0 0 0"] wEntry_range
  by (simp add: w_votes specCombine_def Let_def)


section \<open>Verification: the weld\<close>

text \<open>
  \<open>pick pts t\<close> is the triangle that the source emits for the index triple \<open>t\<close>;
  \<open>distinct3 t\<close> is the negation of its test \<^verbatim>\<open>i0 === i1 || i1 === i22 || i0 === i22\<close>.
  \<open>poolInv\<close> is the invariant of the point pool: the grid holds pool indices only, every
  pool point is registered in its home cell, and no position occurs twice in the pool.
\<close>

definition cellSet3 :: "grid3 \<Rightarrow> int \<times> int \<times> int \<Rightarrow> nat set" where
  "cellSet3 g key = (case g key of None \<Rightarrow> {} | Some cell \<Rightarrow> set cell)"

definition pick :: "vertex list \<Rightarrow> nat \<times> nat \<times> nat \<Rightarrow> vertex \<times> vertex \<times> vertex" where
  "pick pts t = (case t of (i0, i1, i2) \<Rightarrow> (pts ! i0, pts ! i1, pts ! i2))"

definition distinct3 :: "nat \<times> nat \<times> nat \<Rightarrow> bool" where
  "distinct3 t = (case t of (i0, i1, i2) \<Rightarrow> \<not> (i0 = i1 \<or> i1 = i2 \<or> i0 = i2))"

definition inRange3 :: "nat \<Rightarrow> nat \<times> nat \<times> nat \<Rightarrow> bool" where
  "inRange3 n t = (case t of (i0, i1, i2) \<Rightarrow> i0 < n \<and> i1 < n \<and> i2 < n)"

definition poolInv :: "real \<Rightarrow> vertex list \<Rightarrow> grid3 \<Rightarrow> bool" where
  "poolInv cs pts g \<longleftrightarrow>
     (\<forall>key. \<forall>c \<in> cellSet3 g key. c < length pts) \<and>
     (\<forall>k < length pts. k \<in> cellSet3 g (weldCell cs (pts ! k))) \<and>
     distinct pts"

lemma set_bucket: "set (case g key of None \<Rightarrow> [] | Some cell \<Rightarrow> cell) = cellSet3 g key"
  by (simp add: cellSet3_def split: option.splits)

lemma set_bucketsAround:
  "set (bucketsAround g gx gy gz) = (\<Union>key \<in> set (cells27 gx gy gz). cellSet3 g key)"
  unfolding bucketsAround_def by (simp add: set_bucket)

lemma home_in_cells27: "(gx, gy, gz) \<in> set (cells27 gx gy gz)"
  unfolding cells27_def by simp

lemma distSq3_self: "distSq3 v v = 0"
  by (simp add: distSq3_def)

lemma getOrAddPoint_inv:
  assumes inv: "poolInv cs pts g" and tol: "0 \<le> tolSq"
      and res: "getOrAddPoint cs tolSq v (pts, g) = (i, pts', g')"
  shows "poolInv cs pts' g' \<and> i < length pts' \<and> (\<exists>ext. pts' = pts @ ext)"
proof (cases "weldFind cs tolSq pts g v")
  case (Some c)
  with res have eq: "i = c" "pts' = pts" "g' = g" by (simp_all add: getOrAddPoint_def)
  obtain gx gy gz where wc: "weldCell cs v = (gx, gy, gz)" by (cases "weldCell cs v") auto
  from Some wc have "c \<in> set (bucketsAround g gx gy gz)"
    by (auto simp: weldFind_def find_Some_iff)
  then have "c < length pts" using inv unfolding poolInv_def set_bucketsAround by blast
  with inv eq show ?thesis by simp
next
  case None
  with res have eq: "i = length pts" "pts' = pts @ [v]"
    "g' = g(weldCell cs v \<mapsto> (case g (weldCell cs v) of None \<Rightarrow> [] | Some cell \<Rightarrow> cell) @ [length pts])"
    by (auto simp: getOrAddPoint_def)
  have cs3: "\<And>key. cellSet3 g' key
               = (if key = weldCell cs v then insert (length pts) (cellSet3 g key)
                  else cellSet3 g key)"
    unfolding eq(3) cellSet3_def by (auto split: option.splits)
  obtain gx gy gz where wc: "weldCell cs v = (gx, gy, gz)" by (cases "weldCell cs v") auto
  have notin: "v \<notin> set pts"
  proof
    assume "v \<in> set pts"
    then obtain k where k: "k < length pts" "pts ! k = v" by (auto simp: in_set_conv_nth)
    with inv have "k \<in> cellSet3 g (weldCell cs v)" unfolding poolInv_def by blast
    then have "k \<in> set (bucketsAround g gx gy gz)"
      using home_in_cells27 [of gx gy gz] wc by (auto simp: set_bucketsAround)
    moreover have "distSq3 (pts ! k) v \<le> tolSq" using k tol by (simp add: distSq3_self)
    ultimately have "weldFind cs tolSq pts g v \<noteq> None"
      by (auto simp: weldFind_def wc find_None_iff)
    with None show False by simp
  qed
  from inv have G: "\<And>key c. c \<in> cellSet3 g key \<Longrightarrow> c < length pts"
    unfolding poolInv_def by blast
  from inv have H: "\<And>k. k < length pts \<Longrightarrow> k \<in> cellSet3 g (weldCell cs (pts ! k))"
    unfolding poolInv_def by blast
  have "poolInv cs pts' g'"
    unfolding poolInv_def
  proof (intro conjI allI impI ballI)
    fix key c assume "c \<in> cellSet3 g' key"
    then have "c \<in> cellSet3 g key \<or> c = length pts"
      by (auto simp: cs3 split: if_splits)
    then show "c < length pts'"
      using G [of c key] by (auto simp: eq(1,2))
  next
    fix k assume "k < length pts'"
    then show "k \<in> cellSet3 g' (weldCell cs (pts' ! k))"
      using H [of k] by (auto simp: cs3 eq(1,2) nth_append less_Suc_eq)
  next
    show "distinct pts'" using inv notin by (simp add: eq(1,2) poolInv_def)
  qed
  then show ?thesis by (simp add: eq(1,2))
qed

definition stateInv :: "real \<Rightarrow> weld_state \<Rightarrow> bool" where
  "stateInv cs s \<longleftrightarrow>
     poolInv cs (wsPoints s) (wsGrid s) \<and>
     (\<forall>t \<in> set (wsTrace s). inRange3 (length (wsPoints s)) t) \<and>
     wsTriangles s = map (pick (wsPoints s)) (filter distinct3 (wsTrace s))"

lemma pick_append: "inRange3 (length pts) t \<Longrightarrow> pick (pts @ ext) t = pick pts t"
  by (cases t) (simp add: pick_def inRange3_def nth_append)

lemma inRange3_mono: "inRange3 n t \<Longrightarrow> n \<le> m \<Longrightarrow> inRange3 m t"
  by (cases t) (auto simp: inRange3_def)

lemma weldStep_inv:
  assumes inv: "stateInv cs s" and tol: "0 \<le> tolSq"
  shows "stateInv cs (weldStep cs tolSq tri s) \<and>
         length (wsTrace (weldStep cs tolSq tri s)) = Suc (length (wsTrace s))"
proof -
  obtain i0 pts1 g1 where r0: "getOrAddPoint cs tolSq (v0 tri) (wsPoints s, wsGrid s) = (i0, pts1, g1)"
    by (metis prod_cases3)
  obtain i1 pts2 g2 where r1: "getOrAddPoint cs tolSq (v1 tri) (pts1, g1) = (i1, pts2, g2)"
    by (metis prod_cases3)
  obtain i2 pts3 g3 where r2: "getOrAddPoint cs tolSq (v2 tri) (pts2, g2) = (i2, pts3, g3)"
    by (metis prod_cases3)
  from inv have p0: "poolInv cs (wsPoints s) (wsGrid s)" by (simp add: stateInv_def)
  from getOrAddPoint_inv [OF p0 tol r0]
  obtain e1 where s1: "poolInv cs pts1 g1" "i0 < length pts1" "pts1 = wsPoints s @ e1" by blast
  from getOrAddPoint_inv [OF s1(1) tol r1]
  obtain e2 where s2: "poolInv cs pts2 g2" "i1 < length pts2" "pts2 = pts1 @ e2" by blast
  from getOrAddPoint_inv [OF s2(1) tol r2]
  obtain e3 where s3: "poolInv cs pts3 g3" "i2 < length pts3" "pts3 = pts2 @ e3" by blast
  have ext: "pts3 = wsPoints s @ (e1 @ e2 @ e3)" using s1 s2 s3 by simp
  have step: "weldStep cs tolSq tri s =
          WeldState pts3 g3
            (if i0 = i1 \<or> i1 = i2 \<or> i0 = i2 then wsTriangles s
             else wsTriangles s @ [(pts3 ! i0, pts3 ! i1, pts3 ! i2)])
            (wsTrace s @ [(i0, i1, i2)])"
    by (simp add: weldStep_def r0 r1 r2)
  have old: "\<forall>t \<in> set (wsTrace s). inRange3 (length (wsPoints s)) t"
    using inv by (simp add: stateInv_def)
  have tr: "wsTriangles s = map (pick (wsPoints s)) (filter distinct3 (wsTrace s))"
    using inv by (simp add: stateInv_def)
  have keep: "map (pick pts3) (filter distinct3 (wsTrace s))
                = map (pick (wsPoints s)) (filter distinct3 (wsTrace s))"
    using old by (auto simp: ext pick_append)
  have new: "inRange3 (length pts3) (i0, i1, i2)"
    using s1 s2 s3 by (simp add: inRange3_def)
  have "stateInv cs (weldStep cs tolSq tri s)"
    unfolding stateInv_def step
    using s3(1) old new tr keep
    by (auto simp: ext distinct3_def pick_def intro: inRange3_mono)
  then show ?thesis by (simp add: step)
qed

lemma weldFold_inv:
  "stateInv cs s \<Longrightarrow> 0 \<le> tolSq \<Longrightarrow>
   stateInv cs (fold (weldStep cs tolSq) tris s) \<and>
   length (wsTrace (fold (weldStep cs tolSq) tris s)) = length (wsTrace s) + length tris"
proof (induction tris arbitrary: s)
  case Nil
  then show ?case by simp
next
  case (Cons t ts)
  from weldStep_inv [OF Cons.prems] Cons.IH [of "weldStep cs tolSq t s"] Cons.prems(2)
  show ?case by simp
qed

lemma stateInv_init: "stateInv cs (WeldState [] Map.empty [] [])"
  by (simp add: stateInv_def poolInv_def cellSet3_def)

lemma weldLoop_inv:
  "stateInv (max (tolerance * 2) 0.002) (weldLoop tris tolerance) \<and>
   length (wsTrace (weldLoop tris tolerance)) = length tris"
  unfolding weldLoop_def
  using weldFold_inv [OF stateInv_init, of "tolerance * tolerance" "max (tolerance * 2) 0.002" tris]
  by simp


text \<open>
  Claim C10. For every soup and every tolerance \<open>> 0\<close>, \<open>weldVertices\<close> emits an indexed
  triangle only when its three vertices map to three pairwise-distinct pool points: the
  emitted list is exactly the input triangles whose index triple is pairwise distinct, in
  order, and the three vertices of each emitted triangle are different positions. Every
  other triangle is dropped, so the list can be shorter than the input (it is never
  longer).
\<close>

theorem weldVertices_emits_distinct:
  assumes "tolerance > 0"
  shows "let w = weldVertices tris tolerance; trace = wsTrace (weldLoop tris tolerance)
         in length trace = length tris
          \<and> (\<forall>t \<in> set trace. inRange3 (length (weldedPoints w)) t)
          \<and> distinct (weldedPoints w)
          \<and> weldedTriangles w = map (pick (weldedPoints w)) (filter distinct3 trace)
          \<and> (\<forall>(a, b, c) \<in> set (weldedTriangles w). a \<noteq> b \<and> b \<noteq> c \<and> a \<noteq> c)
          \<and> length (weldedTriangles w) \<le> length tris"
proof -
  let ?s = "weldLoop tris tolerance"
  have w: "weldVertices tris tolerance = Welded (wsPoints ?s) (wsTriangles ?s)"
    using assms by (simp add: weldVertices_def)
  from weldLoop_inv [of tolerance tris]
  have inv: "stateInv (max (tolerance * 2) 0.002) ?s" and len: "length (wsTrace ?s) = length tris"
    by simp_all
  have d: "distinct (wsPoints ?s)" using inv by (simp add: stateInv_def poolInv_def)
  have r: "\<forall>t \<in> set (wsTrace ?s). inRange3 (length (wsPoints ?s)) t"
    using inv by (simp add: stateInv_def)
  have t: "wsTriangles ?s = map (pick (wsPoints ?s)) (filter distinct3 (wsTrace ?s))"
    using inv by (simp add: stateInv_def)
  have dv: "\<forall>(a, b, c) \<in> set (wsTriangles ?s). a \<noteq> b \<and> b \<noteq> c \<and> a \<noteq> c"
    unfolding t using r d
    by (auto simp: pick_def distinct3_def inRange3_def nth_eq_iff_index_eq)
  have "length (wsTriangles ?s) \<le> length (wsTrace ?s)" unfolding t by simp
  with len d r t dv show ?thesis by (simp add: w Let_def)
qed


text \<open>
  A witness: a triangle with two equal corners welds to two pool points and is dropped.
\<close>

definition wA :: vertex where "wA = Vertex 0 0 0"

definition wB :: vertex where "wB = Vertex 1 0 0"

lemma weld_example: "weldedTriangles (weldVertices [Triangle wA wA wB] 1) = []"
  by (simp add: weldVertices_def weldLoop_def weldStep_def getOrAddPoint_def weldFind_def
      weldCell_def bucketsAround_def cells27_def distSq3_def wA_def wB_def)

theorem weldVertices_emits_distinct_witness:
  "(1::real) > 0 \<and> weldedTriangles (weldVertices [Triangle wA wA wB] 1) = []
   \<and> length (weldedTriangles (weldVertices [Triangle wA wA wB] 1)) < length [Triangle wA wA wB]
   \<and> distinct (weldedPoints (weldVertices [Triangle wA wA wB] 1))"
  using weldVertices_emits_distinct [of 1 "[Triangle wA wA wB]"] weld_example
  by (simp add: Let_def)

section \<open>Verification: the pair intersector\<close>

text \<open>
  The cell size and the candidate list that \<^verbatim>\<open>intersectMeshPairTagged\<close> computes inline, and
  the pair of tags carried by a segment.
\<close>

definition cellSizeOf :: "soup \<Rightarrow> real" where
  "cellSizeOf tris = max (estimateAvgEdge tris * 2) 0.1"

definition candidatesOf :: "soup \<Rightarrow> triangle \<Rightarrow> nat list" where
  "candidatesOf trisB triA =
     queryGrid (buildSpatialGrid trisB (cellSizeOf trisB)) (triBBox triA) (cellSizeOf trisB)"

definition tagOf :: "tagged_segment \<Rightarrow> nat \<times> nat" where
  "tagOf s = (idxA s, idxB s)"

lemma cellSizeOf_pos: "cellSizeOf tris > 0"
  unfolding cellSizeOf_def by (simp add: less_max_iff_disj)

lemma intersectMeshPairTagged_alt:
  "intersectMeshPairTagged trisA trisB =
     concat (map (\<lambda>i. concat (map (pairSegments (trisA ! i) i trisB) (candidatesOf trisB (trisA ! i))))
                 [0..<length trisA])"
  unfolding intersectMeshPairTagged_def candidatesOf_def cellSizeOf_def Let_def by (rule refl)

lemma candidatesOf_iff:
  "j \<in> set (candidatesOf trisB triA) \<longleftrightarrow>
     j < length trisB \<and>
     (\<exists>key \<in> set (gridCells (triBBox triA) (cellSizeOf trisB)).
        key \<in> set (gridCells (triBBox (trisB ! j)) (cellSizeOf trisB)))"
  unfolding candidatesOf_def by (auto simp: set_queryGrid cellSet_buildSpatialGrid)

lemma distinct_candidatesOf: "distinct (candidatesOf trisB triA)"
  unfolding candidatesOf_def by (rule distinct_queryGrid)

lemma set_pairSegments:
  "s \<in> set (pairSegments triA i trisB j) \<longleftrightarrow>
     (\<exists>seg. triTriIntersection triA (trisB ! j) = Some seg \<and> s = TaggedSegment (p0 seg) (p1 seg) i j)"
  unfolding pairSegments_def by (cases "triTriIntersection triA (trisB ! j)") auto

lemma set_intersectMeshPairTagged:
  "s \<in> set (intersectMeshPairTagged trisA trisB) \<longleftrightarrow>
     (\<exists>i j seg. i < length trisA \<and> j \<in> set (candidatesOf trisB (trisA ! i)) \<and>
        triTriIntersection (trisA ! i) (trisB ! j) = Some seg \<and>
        s = TaggedSegment (p0 seg) (p1 seg) i j)"
  unfolding intersectMeshPairTagged_alt by (fastforce simp: set_pairSegments)

lemma distinct_concat_map:
  assumes "distinct xs" and "\<And>x. x \<in> set xs \<Longrightarrow> distinct (f x)"
      and "\<And>x y. x \<in> set xs \<Longrightarrow> y \<in> set xs \<Longrightarrow> x \<noteq> y \<Longrightarrow> set (f x) \<inter> set (f y) = {}"
  shows "distinct (concat (map f xs))"
  using assms
proof (induction xs)
  case Nil then show ?case by simp
next
  case (Cons a xs)
  have "distinct (concat (map f xs))" using Cons by auto
  moreover have "distinct (f a)" using Cons.prems(2) by simp
  moreover have "set (f a) \<inter> (\<Union>x \<in> set xs. set (f x)) = {}"
  proof -
    have "\<And>x. x \<in> set xs \<Longrightarrow> set (f a) \<inter> set (f x) = {}"
      using Cons.prems(1) by (intro Cons.prems(3)) auto
    then show ?thesis by blast
  qed
  ultimately show ?case by simp
qed

lemma map_tagOf_pairSegments:
  "map tagOf (pairSegments triA i trisB j)
     = (if triTriIntersection triA (trisB ! j) = None then [] else [(i, j)])"
  unfolding pairSegments_def tagOf_def by (auto split: option.splits)

lemma distinct_tags_row:
  "distinct (concat (map (\<lambda>j. map tagOf (pairSegments triA i trisB j)) (candidatesOf trisB triA)))"
  by (rule distinct_concat_map) (auto simp: distinct_candidatesOf map_tagOf_pairSegments)

lemma set_tags_row:
  "set (concat (map (\<lambda>j. map tagOf (pairSegments triA i trisB j)) cands)) \<subseteq> {i} \<times> UNIV"
  by (auto simp: map_tagOf_pairSegments split: if_splits)

lemma distinct_tags: "distinct (map tagOf (intersectMeshPairTagged trisA trisB))"
proof -
  have eq: "map tagOf (intersectMeshPairTagged trisA trisB)
      = concat (map (\<lambda>i. concat (map (\<lambda>j. map tagOf (pairSegments (trisA ! i) i trisB j))
                                       (candidatesOf trisB (trisA ! i)))) [0..<length trisA])"
    unfolding intersectMeshPairTagged_alt by (simp add: map_concat comp_def)
  show ?thesis
    unfolding eq
  proof (rule distinct_concat_map)
    show "distinct [0..<length trisA]" by simp
  next
    fix x show "distinct (concat (map (\<lambda>j. map tagOf (pairSegments (trisA ! x) x trisB j))
                                       (candidatesOf trisB (trisA ! x))))"
      by (rule distinct_tags_row)
  next
    fix x y :: nat assume "x \<noteq> y"
    then show "set (concat (map (\<lambda>j. map tagOf (pairSegments (trisA ! x) x trisB j))
                                       (candidatesOf trisB (trisA ! x))))
             \<inter> set (concat (map (\<lambda>j. map tagOf (pairSegments (trisA ! y) y trisB j))
                                       (candidatesOf trisB (trisA ! y)))) = {}"
      using set_tags_row [of "trisA ! x" x trisB "candidatesOf trisB (trisA ! x)"]
            set_tags_row [of "trisA ! y" y trisB "candidatesOf trisB (trisA ! y)"]
      by blast
  qed
qed

lemma filter_distinct_key:
  assumes "distinct (map f xs)" and "x \<in> set xs"
  shows "filter (\<lambda>y. f y = f x) xs = [x]"
  using assms
proof (induction xs)
  case Nil then show ?case by simp
next
  case (Cons a xs)
  show ?case
  proof (cases "a = x")
    case True
    with Cons.prems have "f x \<notin> f ` set xs" by simp
    then have "\<forall>y \<in> set xs. f y \<noteq> f x" by (metis imageI)
    then have "filter (\<lambda>y. f y = f x) xs = []" by (simp add: filter_empty_conv)
    with True show ?thesis by simp
  next
    case False
    with Cons.prems have "x \<in> set xs" "f a \<noteq> f x" by auto
    with Cons show ?thesis by simp
  qed
qed

lemma triBBox_wf: "minX (triBBox t) \<le> maxX (triBBox t) \<and> minY (triBBox t) \<le> maxY (triBBox t)"
  unfolding triBBox_def by (simp add: min_le_iff_disj le_max_iff_disj)

definition xyOverlap :: "bbox \<Rightarrow> bbox \<Rightarrow> bool" where
  "xyOverlap a b \<longleftrightarrow> minX a \<le> maxX b \<and> maxX a \<ge> minX b \<and> minY a \<le> maxY b \<and> maxY a \<ge> minY b"

lemma bboxOverlap_xy: "bboxOverlap a b \<Longrightarrow> xyOverlap a b"
  unfolding bboxOverlap_def xyOverlap_def by simp

lemma common_cell:
  assumes cs: "cs > 0" and ov: "xyOverlap a b"
      and wa: "minX a \<le> maxX a" "minY a \<le> maxY a" and wb: "minX b \<le> maxX b" "minY b \<le> maxY b"
  shows "\<exists>key \<in> set (gridCells a cs). key \<in> set (gridCells b cs)"
proof -
  let ?gx = "\<lfloor>max (minX a) (minX b) / cs\<rfloor>" and ?gy = "\<lfloor>max (minY a) (minY b) / cs\<rfloor>"
  have m: "\<And>x y :: real. x \<le> y \<Longrightarrow> \<lfloor>x / cs\<rfloor> \<le> \<lfloor>y / cs\<rfloor>"
    using cs by (simp add: floor_mono divide_right_mono)
  have "(?gx, ?gy) \<in> set (gridCells a cs)"
    unfolding gridCells_iff using ov wa wb unfolding xyOverlap_def by (intro conjI m) auto
  moreover have "(?gx, ?gy) \<in> set (gridCells b cs)"
    unfolding gridCells_iff using ov wa wb unfolding xyOverlap_def by (intro conjI m) auto
  ultimately show ?thesis by blast
qed

lemma overlap_candidate:
  assumes "j < length trisB" and "xyOverlap (triBBox triA) (triBBox (trisB ! j))"
  shows "j \<in> set (candidatesOf trisB triA)"
  unfolding candidatesOf_iff
  using assms common_cell [OF cellSizeOf_pos assms(2)] triBBox_wf by blast

lemma pair_emitted_once:
  assumes "i < length trisA" and "j \<in> set (candidatesOf trisB (trisA ! i))"
      and "triTriIntersection (trisA ! i) (trisB ! j) = Some seg"
  shows "filter (\<lambda>s. idxA s = i \<and> idxB s = j) (intersectMeshPairTagged trisA trisB)
           = [TaggedSegment (p0 seg) (p1 seg) i j]"
proof -
  let ?s = "TaggedSegment (p0 seg) (p1 seg) i j"
  have "?s \<in> set (intersectMeshPairTagged trisA trisB)"
    unfolding set_intersectMeshPairTagged using assms by blast
  from filter_distinct_key [OF distinct_tags this]
  show ?thesis by (simp add: tagOf_def)
qed

lemma sqrt_sq: "0 \<le> r \<Longrightarrow> x = r * r \<Longrightarrow> sqrt x = r"
  by (simp add: real_sqrt_mult)

text \<open>
  Two example triangles that cross: \<open>exT1\<close> lies in the plane \<open>z = 0\<close>, \<open>exT2\<close> in the plane
  \<open>x = 1\<close>, and they meet in the segment from \<open>(1, 0, 0)\<close> to \<open>(1, 1, 0)\<close>.
\<close>

definition exT1 :: triangle where
  "exT1 = Triangle (Vertex 0 0 0) (Vertex 2 0 0) (Vertex 1 2 0)"

definition exT2 :: triangle where
  "exT2 = Triangle (Vertex 1 1 (- 1)) (Vertex 1 1 1) (Vertex 1 (- 1) 0)"

lemma triNormal_exT1: "triNormal exT1 = Vertex 0 0 1"
proof -
  have s: "sqrt 16 = 4" by (rule sqrt_sq) simp_all
  show ?thesis by (simp add: triNormal_def exT1_def cross_def Let_def s)
qed

lemma triNormal_exT2: "triNormal exT2 = Vertex 1 0 0"
proof -
  have s: "sqrt 16 = 4" by (rule sqrt_sq) simp_all
  show ?thesis by (simp add: triNormal_def exT2_def cross_def Let_def s)
qed

lemma triTri_exT1_exT2:
  "triTriIntersection exT1 exT2 = Some (Segment (Vertex 1 0 0) (Vertex 1 1 0))"
  unfolding triTriIntersection_def triNormal_exT1 triNormal_exT2
  by (simp add: exT1_def exT2_def planeConst_def planeDist_def cross_def findLinePoint_def
        computeTriInterval_def edgeParam_def Let_def)

lemma xyOverlap_exT1_exT2: "xyOverlap (triBBox exT1) (triBBox exT2)"
  by (simp add: xyOverlap_def triBBox_def exT1_def exT2_def)

lemma singleton_list: "distinct xs \<Longrightarrow> set xs = {a} \<Longrightarrow> xs = [a]"
  by (metis distinct.simps(2) empty_iff insert_iff list.exhaust list.set_intros(1) list.set_intros(2) list.simps(15) set_empty singletonD subset_singletonD)


lemma query_single_overlap:
  assumes "xyOverlap (triBBox triA) (triBBox triB)"
  shows "candidatesOf [triB] triA = [0]"
proof -
  have "0 \<in> set (candidatesOf [triB] triA)"
    using overlap_candidate [of 0 "[triB]" triA] assms by simp
  moreover have "set (candidatesOf [triB] triA) \<subseteq> {0}"
    by (auto simp: candidatesOf_iff)
  ultimately have "set (candidatesOf [triB] triA) = {0}" by blast
  from singleton_list [OF distinct_candidatesOf this] show ?thesis .
qed

lemma single_pair:
  "intersectMeshPairTagged [triA] [triB]
     = concat (map (pairSegments triA 0 [triB]) (candidatesOf [triB] triA))"
  unfolding intersectMeshPairTagged_alt by simp

lemma intersect_exT1_exT2:
  "intersectMeshPairTagged [exT1] [exT2] = [TaggedSegment (Vertex 1 0 0) (Vertex 1 1 0) 0 0]"
  unfolding single_pair query_single_overlap [OF xyOverlap_exT1_exT2]
  by (simp add: pairSegments_def triTri_exT1_exT2)

text \<open>
  A pair on which the grid and the intersector disagree. The three vertices of \<open>cxB\<close> are
  collinear, so \<^verbatim>\<open>triNormal\<close> falls back to \<open>(0, 0, 1)\<close> and the intersector treats \<open>cxB\<close> as if
  it lay in the plane \<open>z = 0\<close>. All three vertices of \<open>cxB\<close> lie in the plane of \<open>cxA\<close>, and the
  parameter interval computed for \<open>cxB\<close> on the common line covers the edge of \<open>cxA\<close> from
  \<open>(9, -3, 0)\<close> to \<open>(13, -6, 0)\<close>, although the bounding boxes of the two triangles are
  disjoint in \<open>x\<close> (\<open>cxA\<close> spans \<open>[9, 13]\<close>, \<open>cxB\<close> spans \<open>[-23, 5]\<close>).
\<close>

definition cxA :: triangle where
  "cxA = Triangle (Vertex 9 (- 3) 0) (Vertex 13 (- 6) 0) (Vertex 11 (- 3) (- 1 / 2))"

definition cxB :: triangle where
  "cxB = Triangle (Vertex 5 0 0) (Vertex (- 23) (- 54) 25) (Vertex (- 9) (- 27) (25 / 2))"

lemma triNormal_cxA: "triNormal cxA = Vertex (3 / 13) (4 / 13) (12 / 13)"
proof -
  have s: "sqrt (169 / 4) = 13 / 2" by (rule sqrt_sq) simp_all
  show ?thesis by (simp add: triNormal_def cxA_def cross_def Let_def s)
qed

lemma triNormal_cxB: "triNormal cxB = Vertex 0 0 1"
  by (simp add: triNormal_def cxB_def cross_def Let_def)

lemma sqrt_25_169: "sqrt (25 / 169) = 5 / 13"
  by (rule sqrt_sq) simp_all

lemma triTri_cxA_cxB:
  "triTriIntersection cxA cxB = Some (Segment (Vertex 9 (- 3) 0) (Vertex 13 (- 6) 0))"
  unfolding triTriIntersection_def triNormal_cxA triNormal_cxB
  by (simp add: cxA_def cxB_def planeConst_def planeDist_def cross_def findLinePoint_def
        computeTriInterval_def edgeParam_def Let_def sqrt_25_169)

lemma triTri_cxB_cxA:
  "triTriIntersection cxB cxA = Some (Segment (Vertex 13 (- 6) 0) (Vertex 9 (- 3) 0))"
  unfolding triTriIntersection_def triNormal_cxA triNormal_cxB
  by (simp add: cxA_def cxB_def planeConst_def planeDist_def cross_def findLinePoint_def
        computeTriInterval_def edgeParam_def Let_def sqrt_25_169)

lemma triBBox_cxA: "triBBox cxA = BBox 9 (- 6) (- 1 / 2) 13 (- 3) 0"
  by (simp add: triBBox_def cxA_def)

lemma triBBox_cxB: "triBBox cxB = BBox (- 23) (- 54) 0 5 0 25"
  by (simp add: triBBox_def cxB_def)

lemma cellSize_cxA: "5 < cellSizeOf [cxA] \<and> cellSizeOf [cxA] \<le> 9"
proof -
  have a: "dist3 (Vertex 9 (- 3) 0) (Vertex 13 (- 6) 0) = 5"
    unfolding dist3_def Let_def by (rule sqrt_sq) simp_all
  have b1: "3 \<le> dist3 (Vertex 13 (- 6) 0) (Vertex 11 (- 3) (- 1 / 2))"
    unfolding dist3_def Let_def by (rule real_le_rsqrt) (simp add: power2_eq_square)
  have b2: "dist3 (Vertex 13 (- 6) 0) (Vertex 11 (- 3) (- 1 / 2)) \<le> 4"
    unfolding dist3_def Let_def by (rule real_le_lsqrt) (simp_all add: power2_eq_square)
  have c1: "2 \<le> dist3 (Vertex 11 (- 3) (- 1 / 2)) (Vertex 9 (- 3) 0)"
    unfolding dist3_def Let_def by (rule real_le_rsqrt) (simp add: power2_eq_square)
  have c2: "dist3 (Vertex 11 (- 3) (- 1 / 2)) (Vertex 9 (- 3) 0) \<le> 3"
    unfolding dist3_def Let_def by (rule real_le_lsqrt) (simp_all add: power2_eq_square)
  have "cellSizeOf [cxA] = max ((5 + dist3 (Vertex 13 (- 6) 0) (Vertex 11 (- 3) (- 1 / 2))
            + dist3 (Vertex 11 (- 3) (- 1 / 2)) (Vertex 9 (- 3) 0)) / 3 * 2) (1 / 10)"
    unfolding cellSizeOf_def estimateAvgEdge_def Let_def cxA_def by (simp add: a)
  with b1 b2 c1 c2 show ?thesis by (auto simp: max_def)
qed

lemma cellSize_cxB: "9 < cellSizeOf [cxB]"
proof -
  have a: "60 \<le> dist3 (Vertex 5 0 0) (Vertex (- 23) (- 54) 25)"
    unfolding dist3_def Let_def by (rule real_le_rsqrt) (simp add: power2_eq_square)
  have b: "0 \<le> dist3 (Vertex (- 23) (- 54) 25) (Vertex (- 9) (- 27) (25 / 2))"
    unfolding dist3_def Let_def by simp
  have c: "0 \<le> dist3 (Vertex (- 9) (- 27) (25 / 2)) (Vertex 5 0 0)"
    unfolding dist3_def Let_def by simp
  have "cellSizeOf [cxB] = max ((dist3 (Vertex 5 0 0) (Vertex (- 23) (- 54) 25)
            + dist3 (Vertex (- 23) (- 54) 25) (Vertex (- 9) (- 27) (25 / 2))
            + dist3 (Vertex (- 9) (- 27) (25 / 2)) (Vertex 5 0 0)) / 3 * 2) (1 / 10)"
    unfolding cellSizeOf_def estimateAvgEdge_def Let_def cxB_def by simp
  with a b c show ?thesis by (auto simp: max_def)
qed

lemma candidates_cxB_cxA: "candidatesOf [cxA] cxB = []"
proof -
  let ?cs = "cellSizeOf [cxA]"
  from cellSize_cxA have cs: "5 < ?cs" "?cs \<le> 9" by simp_all
  have lo: "1 \<le> \<lfloor>9 / ?cs\<rfloor>" using cs by (simp add: le_floor_iff)
  have hi: "\<lfloor>5 / ?cs\<rfloor> < 1" using cs by (simp add: floor_less_iff)
  have "j \<notin> set (candidatesOf [cxA] cxB)" for j
  proof
    assume "j \<in> set (candidatesOf [cxA] cxB)"
    then obtain gx gy where "(gx, gy) \<in> set (gridCells (triBBox cxB) ?cs)"
        and "(gx, gy) \<in> set (gridCells (triBBox cxA) ?cs)"
      unfolding candidatesOf_iff by auto
    then have "gx \<le> \<lfloor>5 / ?cs\<rfloor>" and "\<lfloor>9 / ?cs\<rfloor> \<le> gx"
      by (simp_all add: gridCells_iff triBBox_cxA triBBox_cxB)
    with lo hi show False by linarith
  qed
  then show ?thesis by (cases "candidatesOf [cxA] cxB") auto
qed

lemma candidates_cxA_cxB: "candidatesOf [cxB] cxA = [0]"
proof -
  let ?cs = "cellSizeOf [cxB]"
  from cellSize_cxB have cs: "9 < ?cs" .
  then have pos: "0 < ?cs" by linarith
  have a1: "\<lfloor>9 / ?cs\<rfloor> \<le> 0"
    using cs pos by (simp add: floor_le_iff)
  have a2: "0 \<le> \<lfloor>13 / ?cs\<rfloor>"
    using pos by (simp add: le_floor_iff)
  have a3: "\<lfloor>- 6 / ?cs\<rfloor> \<le> - 1"
    using pos by (simp add: floor_le_iff)
  have a4: "- 1 \<le> \<lfloor>- 3 / ?cs\<rfloor>"
    using cs pos by (simp add: le_floor_iff field_simps)
  have b1: "\<lfloor>- 23 / ?cs\<rfloor> \<le> 0"
    using pos by (simp add: floor_le_iff field_simps)
  have b2: "0 \<le> \<lfloor>5 / ?cs\<rfloor>"
    using pos by (simp add: le_floor_iff)
  have b3: "\<lfloor>- 54 / ?cs\<rfloor> \<le> - 1"
    using pos by (simp add: floor_le_iff)
  have b4: "- 1 \<le> \<lfloor>0 / ?cs\<rfloor>"
    by simp
  have "(0, - 1) \<in> set (gridCells (triBBox cxA) ?cs)"
    unfolding gridCells_iff triBBox_cxA bbox.sel using a1 a2 a3 a4 by (intro conjI)
  moreover have "(0, - 1) \<in> set (gridCells (triBBox cxB) ?cs)"
    unfolding gridCells_iff triBBox_cxB bbox.sel using b1 b2 b3 b4 by (intro conjI)
  ultimately have "0 \<in> set (candidatesOf [cxB] cxA)"
    unfolding candidatesOf_iff by auto
  moreover have "set (candidatesOf [cxB] cxA) \<subseteq> {0}"
    by (auto simp: candidatesOf_iff)
  ultimately have "set (candidatesOf [cxB] cxA) = {0}" by blast
  from singleton_list [OF distinct_candidatesOf this] show ?thesis .
qed

lemma intersect_cxA_cxB:
  "intersectMeshPairTagged [cxA] [cxB]
     = [TaggedSegment (Vertex 9 (- 3) 0) (Vertex 13 (- 6) 0) 0 0]"
  unfolding single_pair candidates_cxA_cxB
  by (simp add: pairSegments_def triTri_cxA_cxB)

lemma intersect_cxB_cxA: "intersectMeshPairTagged [cxB] [cxA] = []"
  unfolding single_pair candidates_cxB_cxA by simp

text \<open>
  Claim C5 (amended). For all soups \<open>A\<close> and \<open>B\<close>: no pair of tags \<open>(i, j)\<close> occurs twice in
  \<open>intersectMeshPairTagged A B\<close>; for every pair \<open>(i, j)\<close> of valid indices whose bounding
  boxes overlap in \<open>x\<close> and \<open>y\<close> (in particular every pair whose 3D boxes overlap) and for
  which \<open>triTriIntersection (A ! i) (B ! j)\<close> is a segment, the output holds exactly one
  segment tagged \<open>(i, j)\<close>, and it is that segment; and every emitted segment is the
  intersector's result for the pair of triangles named by its tags.
\<close>

theorem intersectMeshPairTagged_one_segment_per_overlapping_pair:
  "distinct (map tagOf (intersectMeshPairTagged trisA trisB)) \<and>
   (i < length trisA \<and> j < length trisB \<and>
    xyOverlap (triBBox (trisA ! i)) (triBBox (trisB ! j)) \<and>
    triTriIntersection (trisA ! i) (trisB ! j) = Some seg
    \<longrightarrow> filter (\<lambda>s. idxA s = i \<and> idxB s = j) (intersectMeshPairTagged trisA trisB)
          = [TaggedSegment (p0 seg) (p1 seg) i j]) \<and>
   (s \<in> set (intersectMeshPairTagged trisA trisB)
    \<longrightarrow> idxA s < length trisA \<and> idxB s < length trisB \<and>
        triTriIntersection (trisA ! idxA s) (trisB ! idxB s) = Some (Segment (tp0 s) (tp1 s)))"
proof (intro conjI impI)
  show "distinct (map tagOf (intersectMeshPairTagged trisA trisB))"
    by (rule distinct_tags)
next
  assume h: "i < length trisA \<and> j < length trisB \<and>
    xyOverlap (triBBox (trisA ! i)) (triBBox (trisB ! j)) \<and>
    triTriIntersection (trisA ! i) (trisB ! j) = Some seg"
  then have "j \<in> set (candidatesOf trisB (trisA ! i))"
    by (simp add: overlap_candidate)
  with h show "filter (\<lambda>s. idxA s = i \<and> idxB s = j) (intersectMeshPairTagged trisA trisB)
          = [TaggedSegment (p0 seg) (p1 seg) i j]"
    by (simp add: pair_emitted_once)
next
  assume "s \<in> set (intersectMeshPairTagged trisA trisB)"
  then obtain i j seg where f: "i < length trisA" "j \<in> set (candidatesOf trisB (trisA ! i))"
      "triTriIntersection (trisA ! i) (trisB ! j) = Some seg"
      "s = TaggedSegment (p0 seg) (p1 seg) i j"
    unfolding set_intersectMeshPairTagged by blast
  from f(2) have "j < length trisB" by (simp add: candidatesOf_iff)
  with f show "idxA s < length trisA" "idxB s < length trisB"
    "triTriIntersection (trisA ! idxA s) (trisB ! idxB s) = Some (Segment (tp0 s) (tp1 s))"
    by simp_all
qed

theorem intersectMeshPairTagged_one_segment_per_overlapping_pair_witness:
  "xyOverlap (triBBox ([exT1] ! 0)) (triBBox ([exT2] ! 0)) \<and>
   triTriIntersection ([exT1] ! 0) ([exT2] ! 0) = Some (Segment (Vertex 1 0 0) (Vertex 1 1 0)) \<and>
   filter (\<lambda>s. idxA s = 0 \<and> idxB s = 0) (intersectMeshPairTagged [exT1] [exT2])
     = [TaggedSegment (Vertex 1 0 0) (Vertex 1 1 0) 0 0]"
  using intersectMeshPairTagged_one_segment_per_overlapping_pair
          [of "[exT1]" "[exT2]" 0 0 "Segment (Vertex 1 0 0) (Vertex 1 1 0)"
              "TaggedSegment (Vertex 1 0 0) (Vertex 1 1 0) 0 0"]
        xyOverlap_exT1_exT2 triTri_exT1_exT2
  by simp

text \<open>
  Without the restriction to overlapping boxes the claim fails: \<open>triTriIntersection cxB cxA\<close>
  is a segment, but the grid built on \<open>[cxA]\<close> has cell size between 5 and 9, so the cells
  of \<open>cxA\<close> start at column 1 while those of \<open>cxB\<close> end at column 0, and the pair is never
  tested.
\<close>

theorem grid_misses_intersecting_pair:
  "triTriIntersection ([cxB] ! 0) ([cxA] ! 0) = Some (Segment (Vertex 13 (- 6) 0) (Vertex 9 (- 3) 0)) \<and>
   intersectMeshPairTagged [cxB] [cxA] = []"
  by (simp add: triTri_cxB_cxA intersect_cxB_cxA)

subsection \<open>Symmetry of the triangle intersector\<close>

text \<open>
  Exchanging the two triangles negates the direction of the common line and keeps the point
  chosen on it; every parameter along the line changes sign, so the two intervals and their
  overlap are mirrored and the two end points of the segment change places.
\<close>

definition neg :: "vertex \<Rightarrow> vertex" where
  "neg v = Vertex (- vx v) (- vy v) (- vz v)"

definition swapEnds :: "segment \<Rightarrow> segment" where
  "swapEnds s = Segment (p1 s) (p0 s)"

text \<open>
  The body of \<^verbatim>\<open>triTriIntersection\<close> in two stages: \<open>triTriCore\<close> is the part that follows
  the two sign tests, \<open>triTriTail\<close> the part that follows the choice of the point on the line.
\<close>

definition triTriTail ::
  "vertex \<Rightarrow> vertex \<Rightarrow> triangle \<Rightarrow> real \<Rightarrow> real \<Rightarrow> real \<Rightarrow> triangle \<Rightarrow> real \<Rightarrow> real \<Rightarrow> real
     \<Rightarrow> segment option" where
  "triTriTail linePoint lineDir triA dA0 dA1 dA2 triB dB0 dB1 dB2 =
     (case computeTriInterval triA lineDir linePoint dA0 dA1 dA2 of
        None \<Rightarrow> None
      | Some intervalA \<Rightarrow>
     (case computeTriInterval triB lineDir linePoint dB0 dB1 dB2 of
        None \<Rightarrow> None
      | Some intervalB \<Rightarrow>
          let overlapMin = max (fst intervalA) (fst intervalB);
              overlapMax = min (snd intervalA) (snd intervalB)
          in if overlapMin \<ge> overlapMax - 1 / 10 ^ 10 then None
             else
               let q0 = Vertex (vx linePoint + vx lineDir * overlapMin)
                               (vy linePoint + vy lineDir * overlapMin)
                               (vz linePoint + vz lineDir * overlapMin);
                   q1 = Vertex (vx linePoint + vx lineDir * overlapMax)
                               (vy linePoint + vy lineDir * overlapMax)
                               (vz linePoint + vz lineDir * overlapMax);
                   dx = vx q0 - vx q1;
                   dy = vy q0 - vy q1;
                   dz = vz q0 - vz q1
               in if sqrt (dx * dx + dy * dy + dz * dz) < 1 / 10 ^ 8
                  then None
                  else Some (Segment q0 q1)))"

definition triTriCore ::
  "vertex \<Rightarrow> real \<Rightarrow> vertex \<Rightarrow> real \<Rightarrow> triangle \<Rightarrow> real \<Rightarrow> real \<Rightarrow> real
     \<Rightarrow> triangle \<Rightarrow> real \<Rightarrow> real \<Rightarrow> real \<Rightarrow> segment option" where
  "triTriCore nA dA nB dB triA dA0 dA1 dA2 triB dB0 dB1 dB2 =
     (let dotN = vx nA * vx nB + vy nA * vy nB + vz nA * vz nB
      in if \<bar>dotN\<bar> > 0.9999 then None
         else
           let lineDir0 = cross nA nB;
               lineDirLen = sqrt (vx lineDir0 * vx lineDir0
                                + vy lineDir0 * vy lineDir0
                                + vz lineDir0 * vz lineDir0)
           in if lineDirLen < 1 / 10 ^ 12 then None
              else
                let lineDir = Vertex (vx lineDir0 / lineDirLen)
                                     (vy lineDir0 / lineDirLen)
                                     (vz lineDir0 / lineDirLen)
                in case findLinePoint nA dA nB dB lineDir of
                     None \<Rightarrow> None
                   | Some linePoint \<Rightarrow>
                       triTriTail linePoint lineDir triA dA0 dA1 dA2 triB dB0 dB1 dB2)"

lemma triTriIntersection_core:
  "triTriIntersection triA triB =
     (let nB = triNormal triB;
          dB = planeConst nB (v0 triB);
          dA0 = planeDist nB dB (v0 triA);
          dA1 = planeDist nB dB (v1 triA);
          dA2 = planeDist nB dB (v2 triA)
      in if dA0 > 0 \<and> dA1 > 0 \<and> dA2 > 0 then None
         else if dA0 < 0 \<and> dA1 < 0 \<and> dA2 < 0 then None
         else
           let nA = triNormal triA;
               dA = planeConst nA (v0 triA);
               dB0 = planeDist nA dA (v0 triB);
               dB1 = planeDist nA dA (v1 triB);
               dB2 = planeDist nA dA (v2 triB)
           in if dB0 > 0 \<and> dB1 > 0 \<and> dB2 > 0 then None
              else if dB0 < 0 \<and> dB1 < 0 \<and> dB2 < 0 then None
              else triTriCore nA dA nB dB triA dA0 dA1 dA2 triB dB0 dB1 dB2)"
  unfolding triTriIntersection_def triTriCore_def triTriTail_def by (rule refl)

lemma cross_swap: "cross b a = neg (cross a b)"
  by (simp add: cross_def neg_def)

lemma frac_swap: "(- b * y + a * x) / - (det :: real) = (- a * x + b * y) / det"
  by (simp add: divide_simps)

lemma frac_swap2: "(x * (- a) - y * (- b)) / - (det :: real) = (y * (- b) - x * (- a)) / det"
  by (simp add: divide_simps)

lemma findLinePoint_swap:
  "findLinePoint nB dB nA dA (neg d) = findLinePoint nA dA nB dB d"
proof -
  have e1: "vx nB * vy nA - vy nB * vx nA = - (vx nA * vy nB - vy nA * vx nB)" by simp
  have e2: "vx nB * vz nA - vz nB * vx nA = - (vx nA * vz nB - vz nA * vx nB)" by simp
  have e3: "vy nB * vz nA - vz nB * vy nA = - (vy nA * vz nB - vz nA * vy nB)" by simp
  show ?thesis
    by (simp only: findLinePoint_def Let_def neg_def vertex.sel abs_minus_cancel e1 e2 e3
          frac_swap frac_swap2)
qed

lemma edgeParam_neg:
  "edgeParam (neg d) lp vi di vj dj = map uminus (edgeParam d lp vi di vj dj)"
  by (simp add: edgeParam_def Let_def neg_def algebra_simps)

lemma sorted_hd_Min:
  fixes xs :: "real list"
  shows "sorted xs \<Longrightarrow> xs \<noteq> [] \<Longrightarrow> hd xs = Min (set xs)"
  by (cases xs) (auto intro!: Min_eqI [symmetric])

lemma sorted_last_Max:
  fixes xs :: "real list"
  shows "sorted xs \<Longrightarrow> xs \<noteq> [] \<Longrightarrow> last xs = Max (set xs)"
proof (induction xs)
  case Nil then show ?case by simp
next
  case (Cons x ys)
  show ?case
  proof (cases "ys = []")
    case True then show ?thesis by simp
  next
    case False
    with Cons have ih: "last ys = Max (set ys)" by simp
    from False have "last ys \<in> set ys" by simp
    with Cons.prems have "x \<le> last ys" by auto
    with False ih show ?thesis by (simp add: max_def)
  qed
qed

lemma hd_sort_neg:
  fixes xs :: "real list"
  assumes "xs \<noteq> []"
  shows "hd (sort (map uminus xs)) = - last (sort xs)"
    and "last (sort (map uminus xs)) = - hd (sort xs)"
proof -
  from assms have ne: "sort xs \<noteq> []" "sort (map uminus xs) \<noteq> []"
    by (metis set_empty set_sort, metis set_empty set_sort map_is_Nil_conv)
  have fin: "finite (set xs)" "set xs \<noteq> {}" using assms by simp_all
  have "hd (sort (map uminus xs)) = Min (uminus ` set xs)"
    using sorted_hd_Min [OF sorted_sort ne(2)] by simp
  also have "\<dots> = - Max (set xs)" using minus_Max_eq_Min [OF fin] by simp
  also have "\<dots> = - last (sort xs)" using sorted_last_Max [OF sorted_sort ne(1)] by simp
  finally show "hd (sort (map uminus xs)) = - last (sort xs)" .
  have "last (sort (map uminus xs)) = Max (uminus ` set xs)"
    using sorted_last_Max [OF sorted_sort ne(2)] by simp
  also have "\<dots> = - Min (set xs)" using minus_Min_eq_Max [OF fin] by simp
  also have "\<dots> = - hd (sort xs)" using sorted_hd_Min [OF sorted_sort ne(1)] by simp
  finally show "last (sort (map uminus xs)) = - hd (sort xs)" .
qed

definition flipInterval :: "real \<times> real \<Rightarrow> real \<times> real" where
  "flipInterval iv = (- snd iv, - fst iv)"

lemma computeTriInterval_neg:
  "computeTriInterval tri (neg d) lp d0 d1 d2
     = map_option flipInterval (computeTriInterval tri d lp d0 d1 d2)"
proof -
  let ?ps = "edgeParam d lp (v0 tri) d0 (v1 tri) d1 @ edgeParam d lp (v1 tri) d1 (v2 tri) d2
             @ edgeParam d lp (v2 tri) d2 (v0 tri) d0"
  have eq: "edgeParam (neg d) lp (v0 tri) d0 (v1 tri) d1
             @ edgeParam (neg d) lp (v1 tri) d1 (v2 tri) d2
             @ edgeParam (neg d) lp (v2 tri) d2 (v0 tri) d0 = map uminus ?ps"
    by (simp add: edgeParam_neg)
  show ?thesis
  proof (cases "length ?ps < 2")
    case True
    then show ?thesis unfolding computeTriInterval_def Let_def eq by simp
  next
    case False
    then have "?ps \<noteq> []" by auto
    from hd_sort_neg [OF this] False show ?thesis
      unfolding computeTriInterval_def Let_def eq by (simp add: flipInterval_def)
  qed
qed

lemma segFinal_swap:
  "segFinal lp (neg d) (- M) (- m) x y = map_option swapEnds (segFinal lp d m M x' y')"
proof -
  have len: "sqrt ((vx lp + - vx d * - M - (vx lp + - vx d * - m)) * (vx lp + - vx d * - M - (vx lp + - vx d * - m))
                 + (vy lp + - vy d * - M - (vy lp + - vy d * - m)) * (vy lp + - vy d * - M - (vy lp + - vy d * - m))
                 + (vz lp + - vz d * - M - (vz lp + - vz d * - m)) * (vz lp + - vz d * - M - (vz lp + - vz d * - m)))
           = sqrt ((vx lp + vx d * m - (vx lp + vx d * M)) * (vx lp + vx d * m - (vx lp + vx d * M))
                 + (vy lp + vy d * m - (vy lp + vy d * M)) * (vy lp + vy d * m - (vy lp + vy d * M))
                 + (vz lp + vz d * m - (vz lp + vz d * M)) * (vz lp + vz d * m - (vz lp + vz d * M)))"
    by (rule arg_cong [where f = sqrt]) (simp add: algebra_simps)
  show ?thesis
    unfolding segFinal_def Let_def neg_def vertex.sel len
    by (simp add: swapEnds_def)
qed

lemma triTriTail_final:
  "triTriTail lp d triA dA0 dA1 dA2 triB dB0 dB1 dB2 =
     (case computeTriInterval triA d lp dA0 dA1 dA2 of
        None \<Rightarrow> None
      | Some intervalA \<Rightarrow>
     (case computeTriInterval triB d lp dB0 dB1 dB2 of
        None \<Rightarrow> None
      | Some intervalB \<Rightarrow>
          if max (fst intervalA) (fst intervalB)
               \<ge> min (snd intervalA) (snd intervalB) - 1 / 10 ^ 10 then None
          else segFinal lp d (max (fst intervalA) (fst intervalB))
                 (min (snd intervalA) (snd intervalB)) (0, 0, 0) (0, 0, 0)))"
  unfolding triTriTail_def segFinal_def Let_def by (rule refl)

lemma max_neg: "max (- a) (- b) = - min a b" for a b :: real
  by (simp add: max_def min_def)

lemma min_neg: "min (- a) (- b) = - max a b" for a b :: real
  by (simp add: max_def min_def)

lemma triTriTail_swap:
  "triTriTail lp (neg d) triB dB0 dB1 dB2 triA dA0 dA1 dA2
     = map_option swapEnds (triTriTail lp d triA dA0 dA1 dA2 triB dB0 dB1 dB2)"
proof (cases "computeTriInterval triA d lp dA0 dA1 dA2")
  case None
  then show ?thesis
    unfolding triTriTail_final computeTriInterval_neg by (simp split: option.splits)
next
  case A: (Some ia)
  show ?thesis
  proof (cases "computeTriInterval triB d lp dB0 dB1 dB2")
    case None
    then show ?thesis
      unfolding triTriTail_final computeTriInterval_neg A by simp
  next
    case B: (Some ib)
    have c: "(- min (snd ib) (snd ia) \<ge> - max (fst ib) (fst ia) - 1 / 10 ^ 10)
           \<longleftrightarrow> (max (fst ia) (fst ib) \<ge> min (snd ia) (snd ib) - 1 / 10 ^ 10)"
      unfolding max.commute [of "fst ib"] min.commute [of "snd ib"] by arith
    show ?thesis
      unfolding triTriTail_final computeTriInterval_neg A B
      by (simp add: flipInterval_def max_neg min_neg c max.commute [of "fst ib"]
            min.commute [of "snd ib"]
            segFinal_swap [of lp d "min (snd ia) (snd ib)" "max (fst ia) (fst ib)"
                              "(0, 0, 0)" "(0, 0, 0)" "(0, 0, 0)" "(0, 0, 0)"])
  qed
qed

lemma triTriCore_swap:
  "triTriCore nB dB nA dA triB dB0 dB1 dB2 triA dA0 dA1 dA2
     = map_option swapEnds (triTriCore nA dA nB dB triA dA0 dA1 dA2 triB dB0 dB1 dB2)"
proof -
  define c where "c = cross nA nB"
  define len where "len = sqrt (vx c * vx c + vy c * vy c + vz c * vz c)"
  define dir where "dir = Vertex (vx c / len) (vy c / len) (vz c / len)"
  have dot: "vx nB * vx nA + vy nB * vy nA + vz nB * vz nA
           = vx nA * vx nB + vy nA * vy nB + vz nA * vz nB"
    by (simp add: mult.commute)
  have len': "sqrt (vx (neg c) * vx (neg c) + vy (neg c) * vy (neg c) + vz (neg c) * vz (neg c))
            = len"
    by (simp add: neg_def len_def)
  have dir': "Vertex (vx (neg c) / len) (vy (neg c) / len) (vz (neg c) / len) = neg dir"
    by (simp add: neg_def dir_def)
  have lhs: "triTriCore nB dB nA dA triB dB0 dB1 dB2 triA dA0 dA1 dA2
      = (if \<bar>vx nA * vx nB + vy nA * vy nB + vz nA * vz nB\<bar> > 0.9999 then None
         else if len < 1 / 10 ^ 12 then None
         else case findLinePoint nB dB nA dA (neg dir) of
                None \<Rightarrow> None
              | Some linePoint \<Rightarrow> triTriTail linePoint (neg dir) triB dB0 dB1 dB2 triA dA0 dA1 dA2)"
    unfolding triTriCore_def Let_def cross_swap [of nB nA] dot c_def [symmetric] len' dir'
    by (rule refl)
  have rhs: "triTriCore nA dA nB dB triA dA0 dA1 dA2 triB dB0 dB1 dB2
      = (if \<bar>vx nA * vx nB + vy nA * vy nB + vz nA * vz nB\<bar> > 0.9999 then None
         else if len < 1 / 10 ^ 12 then None
         else case findLinePoint nA dA nB dB dir of
                None \<Rightarrow> None
              | Some linePoint \<Rightarrow> triTriTail linePoint dir triA dA0 dA1 dA2 triB dB0 dB1 dB2)"
    unfolding triTriCore_def Let_def c_def [symmetric] len_def [symmetric] dir_def [symmetric]
    by (rule refl)
  show ?thesis
    unfolding lhs rhs findLinePoint_swap
    by (simp add: triTriTail_swap split: option.splits)
qed

lemma triTriIntersection_swap:
  "triTriIntersection triB triA = map_option swapEnds (triTriIntersection triA triB)"
proof -
  define nA where "nA = triNormal triA"
  define nB where "nB = triNormal triB"
  define dA where "dA = planeConst nA (v0 triA)"
  define dB where "dB = planeConst nB (v0 triB)"
  define a0 where "a0 = planeDist nB dB (v0 triA)"
  define a1 where "a1 = planeDist nB dB (v1 triA)"
  define a2 where "a2 = planeDist nB dB (v2 triA)"
  define b0 where "b0 = planeDist nA dA (v0 triB)"
  define b1 where "b1 = planeDist nA dA (v1 triB)"
  define b2 where "b2 = planeDist nA dA (v2 triB)"
  have AB: "triTriIntersection triA triB =
      (if a0 > 0 \<and> a1 > 0 \<and> a2 > 0 then None
       else if a0 < 0 \<and> a1 < 0 \<and> a2 < 0 then None
       else if b0 > 0 \<and> b1 > 0 \<and> b2 > 0 then None
       else if b0 < 0 \<and> b1 < 0 \<and> b2 < 0 then None
       else triTriCore nA dA nB dB triA a0 a1 a2 triB b0 b1 b2)"
    unfolding triTriIntersection_core Let_def a0_def a1_def a2_def b0_def b1_def b2_def
      dA_def dB_def nA_def nB_def
    by (rule refl)
  have BA: "triTriIntersection triB triA =
      (if b0 > 0 \<and> b1 > 0 \<and> b2 > 0 then None
       else if b0 < 0 \<and> b1 < 0 \<and> b2 < 0 then None
       else if a0 > 0 \<and> a1 > 0 \<and> a2 > 0 then None
       else if a0 < 0 \<and> a1 < 0 \<and> a2 < 0 then None
       else triTriCore nB dB nA dA triB b0 b1 b2 triA a0 a1 a2)"
    unfolding triTriIntersection_core Let_def a0_def a1_def a2_def b0_def b1_def b2_def
      dA_def dB_def nA_def nB_def
    by (rule refl)
  show ?thesis
    unfolding AB BA triTriCore_swap [of nB dB nA dA triB b0 b1 b2 triA a0 a1 a2] by simp
qed

lemma xyOverlap_sym: "xyOverlap a b \<Longrightarrow> xyOverlap b a"
  unfolding xyOverlap_def by simp

lemma tagged_in_output:
  "TaggedSegment q0 q1 i j \<in> set (intersectMeshPairTagged trisA trisB) \<longleftrightarrow>
     i < length trisA \<and> j \<in> set (candidatesOf trisB (trisA ! i)) \<and>
     triTriIntersection (trisA ! i) (trisB ! j) = Some (Segment q0 q1)"
proof -
  have "(\<exists>seg. triTriIntersection (trisA ! i) (trisB ! j) = Some seg \<and> q0 = p0 seg \<and> q1 = p1 seg)
      \<longleftrightarrow> triTriIntersection (trisA ! i) (trisB ! j) = Some (Segment q0 q1)"
    by (metis segment.collapse segment.sel(1) segment.sel(2))
  then show ?thesis
    unfolding set_intersectMeshPairTagged by auto
qed

lemma swapEnds_eq: "swapEnds s = Segment q1 q0 \<longleftrightarrow> s = Segment q0 q1"
  by (cases s) (auto simp: swapEnds_def)

lemma map_swapEnds_eq:
  "map_option swapEnds x = Some (Segment q1 q0) \<longleftrightarrow> x = Some (Segment q0 q1)"
  by (cases x) (simp_all add: swapEnds_eq)

text \<open>
  Claim C6 (amended). For all soups \<open>A\<close> and \<open>B\<close> and every pair \<open>(i, j)\<close> of valid indices
  whose bounding boxes overlap in \<open>x\<close> and \<open>y\<close>: \<open>intersectMeshPairTagged A B\<close> holds the
  segment \<open>(q0, q1)\<close> tagged \<open>(i, j)\<close> exactly when \<open>intersectMeshPairTagged B A\<close> holds the
  segment \<open>(q1, q0)\<close> tagged \<open>(j, i)\<close>.
\<close>

theorem intersectMeshPairTagged_symmetric_on_overlapping_pairs:
  assumes "i < length trisA" and "j < length trisB"
      and "xyOverlap (triBBox (trisA ! i)) (triBBox (trisB ! j))"
  shows "TaggedSegment q0 q1 i j \<in> set (intersectMeshPairTagged trisA trisB) \<longleftrightarrow>
         TaggedSegment q1 q0 j i \<in> set (intersectMeshPairTagged trisB trisA)"
proof -
  have cj: "j \<in> set (candidatesOf trisB (trisA ! i))"
    using assms(2,3) by (rule overlap_candidate)
  have ci: "i \<in> set (candidatesOf trisA (trisB ! j))"
    using assms(1) xyOverlap_sym [OF assms(3)] by (rule overlap_candidate)
  have "triTriIntersection (trisB ! j) (trisA ! i) = Some (Segment q1 q0)
      \<longleftrightarrow> triTriIntersection (trisA ! i) (trisB ! j) = Some (Segment q0 q1)"
    unfolding triTriIntersection_swap [of "trisB ! j" "trisA ! i"]
    by (rule map_swapEnds_eq)
  then show ?thesis
    unfolding tagged_in_output using assms(1,2) cj ci by simp
qed

theorem intersectMeshPairTagged_symmetric_on_overlapping_pairs_witness:
  "xyOverlap (triBBox ([exT1] ! 0)) (triBBox ([exT2] ! 0)) \<and>
   TaggedSegment (Vertex 1 0 0) (Vertex 1 1 0) 0 0 \<in> set (intersectMeshPairTagged [exT1] [exT2]) \<and>
   TaggedSegment (Vertex 1 1 0) (Vertex 1 0 0) 0 0 \<in> set (intersectMeshPairTagged [exT2] [exT1])"
  using intersectMeshPairTagged_symmetric_on_overlapping_pairs
          [of 0 "[exT1]" 0 "[exT2]" "Vertex 1 0 0" "Vertex 1 1 0"]
        xyOverlap_exT1_exT2
  by (simp add: intersect_exT1_exT2)

text \<open>
  Without the restriction the symmetry fails: the grid built on \<open>[cxB]\<close> has cells wider
  than 9 and puts both triangles into the cell \<open>(0, -1)\<close>, so \<open>cxA\<close> against \<open>[cxB]\<close> yields
  a segment, while the grid built on \<open>[cxA]\<close> separates the two triangles and \<open>cxB\<close>
  against \<open>[cxA]\<close> yields nothing.
\<close>

theorem pair_intersector_not_symmetric:
  "intersectMeshPairTagged [cxA] [cxB]
     = [TaggedSegment (Vertex 9 (- 3) 0) (Vertex 13 (- 6) 0) 0 0] \<and>
   intersectMeshPairTagged [cxB] [cxA] = []"
  by (simp add: intersect_cxA_cxB intersect_cxB_cxA)

section \<open>Verification: the splitter\<close>

lemma retriangulate_nonempty: "retriangulateWithSteinerPoints lib tri segments \<noteq> []"
  unfolding retriangulateWithSteinerPoints_def Let_def
  by (simp split: option.splits)

text \<open>
  Claim C8. For every triangle \<open>T\<close> and every list of segments,
  \<open>retriangulateWithSteinerPoints\<close> returns a non-empty list; and whenever the list of segments
  is empty, the local frame is degenerate (the length of the first edge, of the normal or
  of the second axis is below \<open>1e-12\<close>), the barycentric determinant is below \<open>1e-12\<close> in
  absolute value, no Steiner point survives validation, the Delaunay triangulation fails, or
  the centroid and area filter discards every sub-triangle, the result is the one-element
  list \<open>[T]\<close>.
\<close>

theorem retriangulateWithSteinerPoints_fallback:
  "retriangulateWithSteinerPoints lib tri segments \<noteq> [] \<and>
   (segments = [] \<or> rtE1Len tri < 1 / 10 ^ 12 \<or> rtLnLen tri < 1 / 10 ^ 12
      \<or> rtLvLen tri < 1 / 10 ^ 12 \<or> \<bar>rtBaryD tri\<bar> < 1 / 10 ^ 12
      \<or> rtValidSteiner tri segments = []
      \<or> delaunator lib (rtCoords tri segments) = None
      \<or> (\<exists>delTris0. delaunator lib (rtCoords tri segments) = Some delTris0
                     \<and> rtResult lib tri segments delTris0 = [])
    \<longrightarrow> retriangulateWithSteinerPoints lib tri segments = [tri])"
  unfolding retriangulateWithSteinerPoints_def Let_def
  by (auto split: option.splits)

text \<open>A triangle whose first edge has length 0, and a segment along its other edge.\<close>

definition wDegenerate :: triangle where
  "wDegenerate = Triangle (Vertex 0 0 0) (Vertex 0 0 0) (Vertex 1 0 0)"

definition wSegment :: tagged_segment where
  "wSegment = TaggedSegment (Vertex 0 0 0) (Vertex 1 0 0) 0 0"

lemma wDegenerate_len: "rtE1Len wDegenerate < 1 / 10 ^ 12"
  by (simp add: rtE1Len_def rtE1_def wDegenerate_def)

theorem retriangulateWithSteinerPoints_fallback_witness:
  "rtE1Len wDegenerate < 1 / 10 ^ 12 \<and>
   retriangulateWithSteinerPoints (CDT (\<lambda>coords. None) (\<lambda>coords d cs. d)) wDegenerate [wSegment]
     = [wDegenerate]"
  using retriangulateWithSteinerPoints_fallback [of "CDT (\<lambda>coords. None) (\<lambda>coords d cs. d)" wDegenerate "[wSegment]"]
        wDegenerate_len
  by simp

section \<open>Verification: the winding propagator\<close>

text \<open>
  The property claimed of the emitted group, in the claim's words: on every edge key that is
  shared by exactly two triangles, the two triangles traverse the edge in opposite
  directions. Two half-edges with the same key run the same way exactly when they start at
  the same vertex.
\<close>

definition oppositeOnSharedEdges :: "soup \<Rightarrow> bool" where
  "oppositeOnSharedEdges tris \<longleftrightarrow>
     list_all (\<lambda>(ek, hs). case hs of [t0, t1] \<Rightarrow> heFrom t0 \<noteq> heFrom t1 | _ \<Rightarrow> True)
              (halfEdgeMap tris)"

text \<open>
  Two tetrahedra, five units apart. The four faces of the first wind consistently. The
  second is a copy of the first except for its last face, which winds the other way round.
\<close>

definition tA0 :: vertex where "tA0 = Vertex 0 0 0"
definition tA1 :: vertex where "tA1 = Vertex 1 0 0"
definition tA2 :: vertex where "tA2 = Vertex 0 1 0"
definition tA3 :: vertex where "tA3 = Vertex 0 0 1"
definition tB0 :: vertex where "tB0 = Vertex 5 0 0"
definition tB1 :: vertex where "tB1 = Vertex 6 0 0"
definition tB2 :: vertex where "tB2 = Vertex 5 1 0"
definition tB3 :: vertex where "tB3 = Vertex 5 0 1"

definition windEx :: soup where
  "windEx =
     [Triangle tA0 tA2 tA1, Triangle tA0 tA1 tA3, Triangle tA1 tA2 tA3, Triangle tA0 tA3 tA2,
      Triangle tB0 tB2 tB1, Triangle tB0 tB1 tB3, Triangle tB1 tB2 tB3, Triangle tB0 tB2 tB3]"

lemma toFixed6_0: "toFixed6 0 = ''0.000000''"
  by (simp add: toFixed6_def showNat.simps digitChar_def)

lemma toFixed6_1: "toFixed6 1 = ''1.000000''"
  by (simp add: toFixed6_def showNat.simps digitChar_def)

lemma toFixed6_5: "toFixed6 5 = ''5.000000''"
  by (simp add: toFixed6_def showNat.simps digitChar_def)

lemma toFixed6_6: "toFixed6 6 = ''6.000000''"
  by (simp add: toFixed6_def showNat.simps digitChar_def)

lemmas windEx_keys = vk_def tA0_def tA1_def tA2_def tA3_def tB0_def tB1_def tB2_def tB3_def
  toFixed6_0 toFixed6_1 toFixed6_5 toFixed6_6 edgeKey_def

lemma upt8: "[0..<8] = [0, 1, 2, 3, 4, 5, 6, 7]"
  by (simp add: upt_rec)

lemma length_windEx: "length windEx = 8"
  by (simp add: windEx_def)

lemma halfEdgeMap_windEx:
  "halfEdgeMap windEx =
     [(edgeKey (vk tA0) (vk tA2), [HalfEdge 0 (vk tA0) (vk tA2), HalfEdge 3 (vk tA2) (vk tA0)]),
      (edgeKey (vk tA2) (vk tA1), [HalfEdge 0 (vk tA2) (vk tA1), HalfEdge 2 (vk tA1) (vk tA2)]),
      (edgeKey (vk tA0) (vk tA1), [HalfEdge 0 (vk tA1) (vk tA0), HalfEdge 1 (vk tA0) (vk tA1)]),
      (edgeKey (vk tA3) (vk tA1), [HalfEdge 1 (vk tA1) (vk tA3), HalfEdge 2 (vk tA3) (vk tA1)]),
      (edgeKey (vk tA0) (vk tA3), [HalfEdge 1 (vk tA3) (vk tA0), HalfEdge 3 (vk tA0) (vk tA3)]),
      (edgeKey (vk tA3) (vk tA2), [HalfEdge 2 (vk tA2) (vk tA3), HalfEdge 3 (vk tA3) (vk tA2)]),
      (edgeKey (vk tB0) (vk tB2), [HalfEdge 4 (vk tB0) (vk tB2), HalfEdge 7 (vk tB0) (vk tB2)]),
      (edgeKey (vk tB2) (vk tB1), [HalfEdge 4 (vk tB2) (vk tB1), HalfEdge 6 (vk tB1) (vk tB2)]),
      (edgeKey (vk tB0) (vk tB1), [HalfEdge 4 (vk tB1) (vk tB0), HalfEdge 5 (vk tB0) (vk tB1)]),
      (edgeKey (vk tB3) (vk tB1), [HalfEdge 5 (vk tB1) (vk tB3), HalfEdge 6 (vk tB3) (vk tB1)]),
      (edgeKey (vk tB0) (vk tB3), [HalfEdge 5 (vk tB3) (vk tB0), HalfEdge 7 (vk tB3) (vk tB0)]),
      (edgeKey (vk tB3) (vk tB2), [HalfEdge 6 (vk tB2) (vk tB3), HalfEdge 7 (vk tB2) (vk tB3)])]"
  unfolding halfEdgeMap_def length_windEx upt8
  by (simp add: windEx_def triHalfEdges_def Let_def windEx_keys)

lemma isManifold_windEx: "isManifold (halfEdgeMap windEx)"
  unfolding halfEdgeMap_windEx by (simp add: isManifold_def)

lemma not_opposite_windEx: "\<not> oppositeOnSharedEdges windEx"
  unfolding oppositeOnSharedEdges_def halfEdgeMap_windEx by simp

lemma windNeighbors_windEx:
  "windNeighbors 8 (halfEdgeMap windEx) =
     [[(3, False), (2, False), (1, False)],
      [(0, False), (2, False), (3, False)],
      [(0, False), (1, False), (3, False)],
      [(0, False), (1, False), (2, False)],
      [(7, True), (6, False), (5, False)],
      [(4, False), (6, False), (7, True)],
      [(4, False), (5, False), (7, True)],
      [(4, True), (5, True), (6, True)]]"
  unfolding halfEdgeMap_windEx
  by (simp add: windNeighbors_def nbrPush_def windEx_keys eval_nat_numeral)

lemma windBfs_windEx:
  "windBfs [[(3, False), (2, False), (1, False)],
            [(0, False), (2, False), (3, False)],
            [(0, False), (1, False), (3, False)],
            [(0, False), (1, False), (2, False)],
            [(7, True), (6, False), (5, False)],
            [(4, False), (6, False), (7, True)],
            [(4, False), (5, False), (7, True)],
            [(4, True), (5, True), (6, True)]]
           [0] 0 ((replicate 8 False)[0 := True]) (replicate 8 False) = Inr (replicate 8 False)"
  by (simp add: windBfs.simps eval_nat_numeral)

lemma applyFlips_none: "applyFlips tris (replicate (length tris) False) = tris"
  unfolding applyFlips_def Let_def by (rule nth_equalityI) simp_all

lemma propagateNormals_windEx: "propagateNormals windEx = Inr windEx"
  unfolding propagateNormals_def Let_def length_windEx windNeighbors_windEx windBfs_windEx
  using isManifold_windEx applyFlips_none [of windEx]
  by (simp add: length_windEx)

text \<open>The group can be oriented: turning its last triangle round is enough.\<close>

lemma orientable_windEx:
  "oppositeOnSharedEdges (windEx[7 := Triangle tB0 tB3 tB2])"
  unfolding oppositeOnSharedEdges_def halfEdgeMap_def
  by (simp add: windEx_def upt8 triHalfEdges_def Let_def windEx_keys)

text \<open>
  Claim C7. The claim is that for every group with a manifold edge map the emitted group
  traverses every edge shared by exactly two triangles in opposite directions. The
  breadth-first search starts at triangle 0 only and is never restarted, so the triangles of
  a component that does not hold triangle 0 are emitted as they came in. On \<open>windEx\<close> the
  edge map is manifold, the search visits triangles 0 to 3, and the group comes out
  unchanged, with triangles 4 and 7 traversing their common edge in the same direction.
\<close>

theorem propagateNormals_leaves_component_unoriented:
  "isManifold (halfEdgeMap windEx) \<and>
   propagateNormals windEx = Inr windEx \<and>
   \<not> oppositeOnSharedEdges windEx"
  by (simp add: isManifold_windEx propagateNormals_windEx not_opposite_windEx)

section \<open>Verification: the region classifier\<close>































section \<open>Verification: no stage throws\<close>
















section \<open>Verification: the assembler\<close>

text \<open>
  A copy of \<open>exT1\<close> moved 10 units along \<open>x\<close>: it lies on one side of the plane of \<open>exT2\<close>
  and does not meet it. \<open>noCdt\<close> stands for a triangulation library whose Delaunay step
  always fails; the results below do not depend on the library.
\<close>

definition exFar :: triangle where
  "exFar = Triangle (Vertex 10 0 0) (Vertex 12 0 0) (Vertex 11 2 0)"


lemma triTri_exFar_exT2: "triTriIntersection exFar exT2 = None"
  unfolding triTriIntersection_def triNormal_exT2
  by (simp add: exFar_def exT2_def planeConst_def planeDist_def Let_def)

lemma candidates_single: "candidatesOf [triB] triA = [] \<or> candidatesOf [triB] triA = [0]"
proof (cases "candidatesOf [triB] triA = []")
  case True then show ?thesis by simp
next
  case False
  have sub: "set (candidatesOf [triB] triA) \<subseteq> {0}"
    by (auto simp: candidatesOf_iff)
  with False have "set (candidatesOf [triB] triA) = {0}"
    by (metis set_empty subset_singletonD)
  from singleton_list [OF distinct_candidatesOf this] show ?thesis by simp
qed

lemma row_exFar: "concat (map (pairSegments exFar i [exT2]) (candidatesOf [exT2] exFar)) = []"
  using candidates_single [of exT2 exFar]
  by (auto simp: pairSegments_def triTri_exFar_exT2)


lemma intersect_two_exT2:
  "intersectMeshPairTagged [exT1, exFar] [exT2]
     = [TaggedSegment (Vertex 1 0 0) (Vertex 1 1 0) 0 0]"
proof -
  have upt: "[0..<length [exT1, exFar]] = [0, 1]" by (simp add: upt_rec)
  show ?thesis
    unfolding intersectMeshPairTagged_alt upt
    by (simp add: row_exFar query_single_overlap [OF xyOverlap_exT1_exT2]
          pairSegments_def triTri_exT1_exT2)
qed







subsection \<open>The region classes that the assembler uses\<close>






definition exV :: triangle where
  "exV = Triangle (Vertex 1 (- 1) (- 1)) (Vertex 1 2 (- 1)) (Vertex 1 (- 1) 3)"

definition exW :: triangle where
  "exW = Triangle (Vertex 5 0 (- 3)) (Vertex 5 8 (- 3)) (Vertex 5 0 3)"































lemma nth_exB: "[exV, exW] ! 0 = exV" "[exV, exW] ! 1 = exW"
  by simp_all















end
